theory Spec2Isabelle
  imports Complex_Main "HOL-Library.Multiset"
begin

section \<open>Seismic waveform fetchers: station resolution, retrieval and archiving\<close>

text \<open>
  The development embeds two fetcher variants of the repository:
  \<^item> \<^verbatim>\<open>ProductionSeismicFetcher\<close> of \<^verbatim>\<open>backup/production_seismic_fetcher.py\<close>
    (definitions prefixed \<open>PSF_\<close>), one IRIS client and a built-in station list;
  \<^item> \<^verbatim>\<open>SeismicDataFetcher\<close> of \<^verbatim>\<open>backup/fetch_seismic_data.py\<close>
    (definitions prefixed \<open>SDF_\<close>), a dictionary of FDSN clients and a fallback list.

  Python floats are idealised as reals, instants as integer seconds since the epoch.
  Printing and sleeping are not part of the model.
\<close>

subsection \<open>Exceptions\<close>

datatype exn =
  ValueError
  | OSError
  | KeyError
  | ZeroDivisionError
  | FDSNException string
  | OtherException string

subsection \<open>GeoDistance: \<^verbatim>\<open>calculate_distance\<close>\<close>

text \<open>\<^verbatim>\<open>math.radians\<close>.\<close>

definition radians :: "real \<Rightarrow> real" where
  "radians d = d * pi / 180"

text \<open>\<^verbatim>\<open>math.sqrt\<close> and \<^verbatim>\<open>math.asin\<close> raise \<^verbatim>\<open>ValueError\<close> outside their domain.\<close>

definition py_sqrt :: "real \<Rightarrow> exn + real" where
  "py_sqrt x = (if x < 0 then Inl ValueError else Inr (sqrt x))"

definition py_asin :: "real \<Rightarrow> exn + real" where
  "py_asin x = (if x < - 1 \<or> 1 < x then Inl ValueError else Inr (arcsin x))"

text \<open>The quantity \<^verbatim>\<open>a\<close> of the source, on arguments already in radians.\<close>

definition haversine_a :: "real \<Rightarrow> real \<Rightarrow> real \<Rightarrow> real \<Rightarrow> real" where
  "haversine_a lat1 lon1 lat2 lon2 =
     (let dlat = lat2 - lat1; dlon = lon2 - lon1
      in (sin (dlat / 2))\<^sup>2 + cos lat1 * cos lat2 * (sin (dlon / 2))\<^sup>2)"

text \<open>
  \<^verbatim>\<open>
  lat1, lon1, lat2, lon2 = map(radians, [lat1, lon1, lat2, lon2])
  dlat = lat2 - lat1
  dlon = lon2 - lon1
  a = sin(dlat/2)**2 + cos(lat1) * cos(lat2) * sin(dlon/2)**2
  c = 2 * asin(sqrt(a))
  r = 6371
  return c * r
  \<close>
  The two classes have the same body.
\<close>

definition calculate_distance :: "real \<Rightarrow> real \<Rightarrow> real \<Rightarrow> real \<Rightarrow> exn + real" where
  "calculate_distance lat1 lon1 lat2 lon2 =
     (let a = haversine_a (radians lat1) (radians lon1) (radians lat2) (radians lon2)
      in case py_sqrt a of
           Inl e \<Rightarrow> Inl e
         | Inr s \<Rightarrow>
             (case py_asin s of
                Inl e \<Rightarrow> Inl e
              | Inr t \<Rightarrow> Inr (2 * t * 6371)))"

text \<open>The value the formula denotes when no domain error is raised.\<close>

definition distance_km_of :: "real \<Rightarrow> real \<Rightarrow> real \<Rightarrow> real \<Rightarrow> real" where
  "distance_km_of lat1 lon1 lat2 lon2 =
     2 * arcsin (sqrt (haversine_a (radians lat1) (radians lon1) (radians lat2) (radians lon2))) * 6371"

subsection \<open>Time windows\<close>

text \<open>
  An instant is a number of seconds; \<^verbatim>\<open>timedelta(days=d)\<close> and
  \<^verbatim>\<open>timedelta(hours=h)\<close> are durations in seconds.
\<close>

type_synonym instant = int

definition timedelta_days :: "int \<Rightarrow> int" where
  "timedelta_days d = d * 86400"

definition timedelta_hours :: "int \<Rightarrow> int" where
  "timedelta_hours h = h * 3600"

record data_periods =
  before_start :: instant
  before_end :: instant
  after_start :: instant
  after_end :: instant

text \<open>
  \<^verbatim>\<open>
  before_start = event_time - timedelta(days=30)
  before_end = event_time - timedelta(hours=2)
  after_start = event_time + timedelta(hours=2)
  after_end = event_time + timedelta(days=30)
  \<close>
  in \<^verbatim>\<open>ProductionSeismicFetcher.process_earthquake\<close>; the other class has
  \<^verbatim>\<open>hours=1\<close>.
\<close>

definition PSF_data_periods :: "instant \<Rightarrow> data_periods" where
  "PSF_data_periods event_time =
     \<lparr> before_start = event_time - timedelta_days 30,
       before_end = event_time - timedelta_hours 2,
       after_start = event_time + timedelta_hours 2,
       after_end = event_time + timedelta_days 30 \<rparr>"

definition SDF_data_periods :: "instant \<Rightarrow> data_periods" where
  "SDF_data_periods event_time =
     \<lparr> before_start = event_time - timedelta_days 30,
       before_end = event_time - timedelta_hours 1,
       after_start = event_time + timedelta_hours 1,
       after_end = event_time + timedelta_days 30 \<rparr>"

text \<open>2023-02-06T01:17:35Z in seconds since 1970-01-01T00:00:00Z.\<close>

definition turkey_2023 :: instant where
  "turkey_2023 = 1675646255"


subsection \<open>Stations\<close>

text \<open>
  A station dictionary. The entries of the built-in lists have the keys of
  \<open>catalog_station\<close> (\<^verbatim>\<open>'name'\<close> only in \<^verbatim>\<open>ProductionSeismicFetcher\<close>); a resolved
  station has \<^verbatim>\<open>'distance_km'\<close> as well and, in \<^verbatim>\<open>SeismicDataFetcher\<close>,
  \<^verbatim>\<open>'client'\<close>, \<^verbatim>\<open>'site_name'\<close> and \<^verbatim>\<open>'elevation'\<close>. An absent key is \<open>None\<close>.
\<close>

record catalog_station =
  network :: string
  station :: string
  latitude :: real
  longitude :: real
  name :: "string option"

record ranked_station = catalog_station +
  distance_km :: real
  client :: "string option"
  site_name :: "string option"
  elevation :: "real option"

text \<open>The identity of a station, and the string \<^verbatim>\<open>f"{network}.{station}"\<close> used to deduplicate.\<close>

definition identity_key :: "'a catalog_station_scheme \<Rightarrow> string \<times> string" where
  "identity_key s = (network s, station s)"

definition station_key :: "'a catalog_station_scheme \<Rightarrow> string" where
  "station_key s = network s @ ''.'' @ station s"

text \<open>The slice \<^verbatim>\<open>xs[:n]\<close>; a negative \<open>n\<close> counts from the end.\<close>

definition py_slice_to :: "int \<Rightarrow> 'a list \<Rightarrow> 'a list" where
  "py_slice_to n xs =
     (if 0 \<le> n then take (nat n) xs else take (length xs - nat (- n)) xs)"

subsection \<open>Remote services\<close>

text \<open>
  What \<^verbatim>\<open>client.get_stations\<close> returns: networks, each with its stations. A trace
  of a waveform stream carries its channel code and its samples.
\<close>

datatype inv_station =
  InvStation (st_code: string) (st_latitude: real) (st_longitude: real)
    (st_site: "string option") (st_elevation: "real option")

datatype inv_network = InvNetwork (net_code: string) (net_stations: "inv_station list")

type_synonym inventory = "inv_network list"

datatype trace = Trace (tr_channel: string) (tr_samples: "int list")

type_synonym stream = "trace list"

text \<open>
  An FDSN client is given by its answers: \<^verbatim>\<open>get_stations\<close> on latitude, longitude
  and \<^verbatim>\<open>maxradius\<close> (in degrees), \<^verbatim>\<open>get_waveforms\<close> on network, station, channel,
  start and end time. \<open>Inl\<close> is a raised exception.
\<close>

record fdsn_client =
  get_stations :: "real \<Rightarrow> real \<Rightarrow> real \<Rightarrow> exn + inventory"
  get_waveforms :: "string \<Rightarrow> string \<Rightarrow> string \<Rightarrow> instant \<Rightarrow> instant \<Rightarrow> exn + stream"

text \<open>The requests sent to remote services, in the order they are sent.\<close>

datatype call =
  GetStations string real real real
  | GetWaveforms string string string string instant instant

subsection \<open>The fetchers\<close>

text \<open>
  \<^verbatim>\<open>self\<close> of \<^verbatim>\<open>ProductionSeismicFetcher\<close>: \<^verbatim>\<open>self.client\<close> is \<open>None\<close> when the
  IRIS client could not be initialised. \<^verbatim>\<open>self\<close> of \<^verbatim>\<open>SeismicDataFetcher\<close>:
  \<^verbatim>\<open>self.clients\<close> is a dictionary, iterated in insertion order.
\<close>

record PSF =
  psf_data_dir :: string
  psf_client :: "fdsn_client option"
  psf_global_stations :: "catalog_station list"

record SDF =
  sdf_data_dir :: string
  sdf_clients :: "(string \<times> fdsn_client) list"

text \<open>The list \<^verbatim>\<open>__init__\<close> assigns to \<^verbatim>\<open>self.global_stations\<close>.\<close>

definition PSF_init_global_stations :: "catalog_station list" where
  "PSF_init_global_stations =
   [ \<lparr> network = ''IU'', station = ''ANMO'', latitude = 34.9459, longitude = - 106.4572, name = Some ''Albuquerque, NM'' \<rparr>,
     \<lparr> network = ''IU'', station = ''HRV'', latitude = 42.5064, longitude = - 71.5583, name = Some ''Harvard, MA'' \<rparr>,
     \<lparr> network = ''IU'', station = ''COLA'', latitude = 64.8738, longitude = - 147.8616, name = Some ''College, AK'' \<rparr>,
     \<lparr> network = ''IU'', station = ''CCM'', latitude = 38.0557, longitude = - 91.2446, name = Some ''Cathedral Cave, MO'' \<rparr>,
     \<lparr> network = ''US'', station = ''WMOK'', latitude = 34.7367, longitude = - 98.7707, name = Some ''Wichita Mountains, OK'' \<rparr>,
     \<lparr> network = ''CI'', station = ''PAS'', latitude = 34.1484, longitude = - 118.1717, name = Some ''Pasadena, CA'' \<rparr>,
     \<lparr> network = ''BK'', station = ''BRK'', latitude = 37.8735, longitude = - 122.2609, name = Some ''Berkeley, CA'' \<rparr>,
     \<lparr> network = ''IU'', station = ''SSPA'', latitude = - 40.3084, longitude = - 70.8601, name = Some ''San Martin, Argentina'' \<rparr>,
     \<lparr> network = ''GT'', station = ''PLCA'', latitude = - 31.6729, longitude = - 63.8792, name = Some ''Argentina'' \<rparr>,
     \<lparr> network = ''IU'', station = ''KONO'', latitude = 59.6491, longitude = 9.5982, name = Some ''Kongsberg, Norway'' \<rparr>,
     \<lparr> network = ''IU'', station = ''KEV'', latitude = 69.7565, longitude = 27.0035, name = Some ''Kevo, Finland'' \<rparr>,
     \<lparr> network = ''IU'', station = ''KIEV'', latitude = 50.7012, longitude = 29.2242, name = Some ''Kiev, Ukraine'' \<rparr>,
     \<lparr> network = ''IU'', station = ''PAB'', latitude = 39.5446, longitude = 4.3499, name = Some ''San Pablo, Spain'' \<rparr>,
     \<lparr> network = ''GE'', station = ''WLF'', latitude = 49.6555, longitude = 6.1508, name = Some ''Walferdange, Luxembourg'' \<rparr>,
     \<lparr> network = ''GE'', station = ''APE'', latitude = 40.8204, longitude = 14.4297, name = Some ''Ape, Italy'' \<rparr>,
     \<lparr> network = ''II'', station = ''ANTO'', latitude = 39.8683, longitude = 32.7934, name = Some ''Ankara, Turkey'' \<rparr>,
     \<lparr> network = ''HL'', station = ''JER'', latitude = 31.7730, longitude = 35.2045, name = Some ''Jerusalem, Israel'' \<rparr>,
     \<lparr> network = ''IU'', station = ''MAJO'', latitude = 36.5457, longitude = 138.2041, name = Some ''Matsushiro, Japan'' \<rparr>,
     \<lparr> network = ''IU'', station = ''TATO'', latitude = 24.9735, longitude = 121.4971, name = Some ''Taipei, Taiwan'' \<rparr>,
     \<lparr> network = ''IU'', station = ''ULN'', latitude = 47.8651, longitude = 107.0532, name = Some ''Ulaanbaatar, Mongolia'' \<rparr>,
     \<lparr> network = ''IU'', station = ''MAKZ'', latitude = 46.8080, longitude = 82.1283, name = Some ''Makanchi, Kazakhstan'' \<rparr>,
     \<lparr> network = ''IU'', station = ''TEIG'', latitude = 20.2263, longitude = 92.7936, name = Some ''Teigaga, Myanmar'' \<rparr>,
     \<lparr> network = ''II'', station = ''NIL'', latitude = 33.6506, longitude = 73.2686, name = Some ''Nilore, Pakistan'' \<rparr>,
     \<lparr> network = ''IU'', station = ''GUMO'', latitude = 13.5893, longitude = 144.8684, name = Some ''Guam, Mariana Is'' \<rparr>,
     \<lparr> network = ''IU'', station = ''FUNA'', latitude = - 8.5259, longitude = 179.1966, name = Some ''Funafuti, Tuvalu'' \<rparr>,
     \<lparr> network = ''GE'', station = ''SUMG'', latitude = - 0.5527, longitude = 100.2381, name = Some ''Sumatra, Indonesia'' \<rparr>,
     \<lparr> network = ''AU'', station = ''ARMA'', latitude = - 30.6267, longitude = 151.9501, name = Some ''Armidale, Australia'' \<rparr>,
     \<lparr> network = ''AU'', station = ''EIDS'', latitude = - 26.3912, longitude = 116.7975, name = Some ''Emu Heights, Australia'' \<rparr>,
     \<lparr> network = ''IU'', station = ''PMSA'', latitude = - 64.7744, longitude = - 64.0489, name = Some ''Palmer Station, Antarctica'' \<rparr>,
     \<lparr> network = ''IU'', station = ''QSPA'', latitude = - 89.9289, longitude = 144.4382, name = Some ''South Pole, Antarctica'' \<rparr> ]"

definition PSF_init :: "string \<Rightarrow> fdsn_client option \<Rightarrow> PSF" where
  "PSF_init dir c =
     \<lparr> psf_data_dir = dir, psf_client = c, psf_global_stations = PSF_init_global_stations \<rparr>"

subsection \<open>StationResolver of \<^verbatim>\<open>ProductionSeismicFetcher\<close>\<close>

definition station_copy :: "catalog_station \<Rightarrow> real \<Rightarrow> ranked_station" where
  "station_copy s d =
     \<lparr> network = network s, station = station s, latitude = latitude s,
       longitude = longitude s, name = name s, distance_km = d, client = None,
       site_name = None, elevation = None \<rparr>"

text \<open>
  \<^verbatim>\<open>
  stations = []
  for station in self.global_stations:
      distance = self.calculate_distance(latitude, longitude,
                                         station['latitude'], station['longitude'])
      if distance <= max_radius_km:
          station_copy = station.copy()
          station_copy['distance_km'] = distance
          stations.append(station_copy)
  stations.sort(key=lambda x: x['distance_km'])
  return stations[:max_stations]
  \<close>
  The loop carries the list \<^verbatim>\<open>stations\<close>; an exception of \<^verbatim>\<open>calculate_distance\<close>
  leaves the function.
\<close>

fun PSF_scan_stations ::
  "real \<Rightarrow> real \<Rightarrow> real \<Rightarrow> catalog_station list \<Rightarrow> ranked_station list
     \<Rightarrow> exn + ranked_station list" where
  "PSF_scan_stations lat lon r [] stations = Inr stations"
| "PSF_scan_stations lat lon r (s # ss) stations =
     (case calculate_distance lat lon (latitude s) (longitude s) of
        Inl e \<Rightarrow> Inl e
      | Inr d \<Rightarrow>
          PSF_scan_stations lat lon r ss
            (if d \<le> r then stations @ [station_copy s d] else stations))"

definition PSF_get_nearest_stations ::
  "PSF \<Rightarrow> real \<Rightarrow> real \<Rightarrow> real \<Rightarrow> int \<Rightarrow> exn + ranked_station list" where
  "PSF_get_nearest_stations self lat lon max_radius_km max_stations =
     (case PSF_scan_stations lat lon max_radius_km (psf_global_stations self) [] of
        Inl e \<Rightarrow> Inl e
      | Inr stations \<Rightarrow> Inr (py_slice_to max_stations (sort_key distance_km stations)))"

subsection \<open>StationResolver of \<^verbatim>\<open>SeismicDataFetcher\<close>\<close>

text \<open>The list local to \<^verbatim>\<open>get_fallback_stations\<close>.\<close>

definition SDF_global_stations :: "catalog_station list" where
  "SDF_global_stations =
   [ \<lparr> network = ''IU'', station = ''ANMO'', latitude = 34.9459, longitude = - 106.4572, name = None \<rparr>,
     \<lparr> network = ''IU'', station = ''COLA'', latitude = 64.8738, longitude = - 147.8616, name = None \<rparr>,
     \<lparr> network = ''IU'', station = ''HRV'', latitude = 42.5064, longitude = - 71.5583, name = None \<rparr>,
     \<lparr> network = ''IU'', station = ''KONO'', latitude = 59.6491, longitude = 9.5982, name = None \<rparr>,
     \<lparr> network = ''IU'', station = ''MAJO'', latitude = 36.5457, longitude = 138.2041, name = None \<rparr>,
     \<lparr> network = ''IU'', station = ''RAO'', latitude = 46.0407, longitude = 14.5148, name = None \<rparr>,
     \<lparr> network = ''IU'', station = ''TATO'', latitude = 24.9735, longitude = 121.4971, name = None \<rparr>,
     \<lparr> network = ''IU'', station = ''ULN'', latitude = 47.8651, longitude = 107.0532, name = None \<rparr>,
     \<lparr> network = ''GT'', station = ''PLCA'', latitude = - 31.6729, longitude = - 63.8792, name = None \<rparr>,
     \<lparr> network = ''GT'', station = ''DBIC'', latitude = - 7.9333, longitude = 115.2333, name = None \<rparr>,
     \<lparr> network = ''US'', station = ''ECSD'', latitude = 44.0648, longitude = - 121.4058, name = None \<rparr>,
     \<lparr> network = ''US'', station = ''LKWY'', latitude = 44.5664, longitude = - 110.4016, name = None \<rparr>,
     \<lparr> network = ''CI'', station = ''PAS'', latitude = 34.1484, longitude = - 118.1717, name = None \<rparr>,
     \<lparr> network = ''BK'', station = ''BRK'', latitude = 37.8735, longitude = - 122.2609, name = None \<rparr>,
     \<lparr> network = ''HV'', station = ''KIP'', latitude = 21.4233, longitude = - 158.0095, name = None \<rparr>,
     \<lparr> network = ''GE'', station = ''APE'', latitude = 40.8204, longitude = 14.4297, name = None \<rparr>,
     \<lparr> network = ''GE'', station = ''SUMG'', latitude = - 0.5527, longitude = 100.2381, name = None \<rparr>,
     \<lparr> network = ''AU'', station = ''ARMA'', latitude = - 30.6267, longitude = 151.9501, name = None \<rparr>,
     \<lparr> network = ''AU'', station = ''EIDS'', latitude = - 26.3912, longitude = 116.7975, name = None \<rparr> ]"

text \<open>
  \<^verbatim>\<open>
  if distance <= max_radius_km:
      station['distance_km'] = distance
      station['client'] = 'IRIS'
      station['site_name'] = 'Global Station'
      station['elevation'] = 0.0
      stations.append(station)
  \<close>
\<close>

definition fallback_station :: "catalog_station \<Rightarrow> real \<Rightarrow> ranked_station" where
  "fallback_station s d =
     \<lparr> network = network s, station = station s, latitude = latitude s,
       longitude = longitude s, name = name s, distance_km = d, client = Some ''IRIS'',
       site_name = Some ''Global Station'', elevation = Some 0 \<rparr>"

fun SDF_scan_fallback ::
  "real \<Rightarrow> real \<Rightarrow> real \<Rightarrow> catalog_station list \<Rightarrow> ranked_station list
     \<Rightarrow> exn + ranked_station list" where
  "SDF_scan_fallback lat lon r [] stations = Inr stations"
| "SDF_scan_fallback lat lon r (s # ss) stations =
     (case calculate_distance lat lon (latitude s) (longitude s) of
        Inl e \<Rightarrow> Inl e
      | Inr d \<Rightarrow>
          SDF_scan_fallback lat lon r ss
            (if d \<le> r then stations @ [fallback_station s d] else stations))"

definition SDF_get_fallback_stations :: "real \<Rightarrow> real \<Rightarrow> real \<Rightarrow> exn + ranked_station list" where
  "SDF_get_fallback_stations lat lon max_radius_km =
     SDF_scan_fallback lat lon max_radius_km SDF_global_stations []"

text \<open>
  The entry appended to \<^verbatim>\<open>all_stations\<close> for a station of a client's inventory;
  \<^verbatim>\<open>station.site.name if station.site else 'Unknown'\<close>.
\<close>

definition inventory_station :: "string \<Rightarrow> string \<Rightarrow> inv_station \<Rightarrow> real \<Rightarrow> ranked_station" where
  "inventory_station client_name ncode s d =
     \<lparr> network = ncode, station = st_code s, latitude = st_latitude s,
       longitude = st_longitude s, name = None, distance_km = d,
       client = Some client_name,
       site_name = Some (case st_site s of None \<Rightarrow> ''Unknown'' | Some n \<Rightarrow> n),
       elevation = st_elevation s \<rparr>"

text \<open>
  The two inner loops over one inventory. They run inside the \<^verbatim>\<open>try\<close> of the
  client: an exception ends the work on this client, and the entries appended so far
  stay in \<^verbatim>\<open>all_stations\<close>. The first component tells whether an exception was raised.
\<close>

fun SDF_extract_network ::
  "real \<Rightarrow> real \<Rightarrow> string \<Rightarrow> string \<Rightarrow> inv_station list \<Rightarrow> ranked_station list
     \<Rightarrow> exn option \<times> ranked_station list" where
  "SDF_extract_network lat lon cn ncode [] all_stations = (None, all_stations)"
| "SDF_extract_network lat lon cn ncode (s # ss) all_stations =
     (case calculate_distance lat lon (st_latitude s) (st_longitude s) of
        Inl e \<Rightarrow> (Some e, all_stations)
      | Inr d \<Rightarrow>
          SDF_extract_network lat lon cn ncode ss
            (all_stations @ [inventory_station cn ncode s d]))"

fun SDF_extract_inventory ::
  "real \<Rightarrow> real \<Rightarrow> string \<Rightarrow> inventory \<Rightarrow> ranked_station list
     \<Rightarrow> exn option \<times> ranked_station list" where
  "SDF_extract_inventory lat lon cn [] all_stations = (None, all_stations)"
| "SDF_extract_inventory lat lon cn (n # ns) all_stations =
     (case SDF_extract_network lat lon cn (net_code n) (net_stations n) all_stations of
        (Some e, all_stations') \<Rightarrow> (Some e, all_stations')
      | (None, all_stations') \<Rightarrow> SDF_extract_inventory lat lon cn ns all_stations')"

text \<open>
  The loop over \<^verbatim>\<open>self.clients.items()\<close>: a client whose query raises is skipped.
  \<^verbatim>\<open>maxradius=max_radius_km / 111.32\<close>.
\<close>

fun SDF_query_clients ::
  "real \<Rightarrow> real \<Rightarrow> real \<Rightarrow> (string \<times> fdsn_client) list \<Rightarrow> ranked_station list
     \<Rightarrow> ranked_station list" where
  "SDF_query_clients lat lon r [] all_stations = all_stations"
| "SDF_query_clients lat lon r ((cn, c) # cs) all_stations =
     (case get_stations c lat lon (r / 111.32) of
        Inl e \<Rightarrow> SDF_query_clients lat lon r cs all_stations
      | Inr inventory \<Rightarrow>
          SDF_query_clients lat lon r cs
            (snd (SDF_extract_inventory lat lon cn inventory all_stations)))"

text \<open>The station queries that loop sends: one to every client.\<close>

definition SDF_station_calls :: "SDF \<Rightarrow> real \<Rightarrow> real \<Rightarrow> real \<Rightarrow> call list" where
  "SDF_station_calls self lat lon r =
     map (\<lambda>(cn, c). GetStations cn lat lon (r / 111.32)) (sdf_clients self)"

text \<open>
  \<^verbatim>\<open>
  unique_stations = []
  seen = set()
  for station in all_stations:
      key = f"{station['network']}.{station['station']}"
      if key not in seen:
          seen.add(key)
          unique_stations.append(station)
  \<close>
\<close>

fun SDF_unique_stations ::
  "ranked_station list \<Rightarrow> string list \<Rightarrow> ranked_station list \<Rightarrow> ranked_station list" where
  "SDF_unique_stations [] seen unique_stations = unique_stations"
| "SDF_unique_stations (s # ss) seen unique_stations =
     (let key = station_key s
      in if key \<notin> set seen
         then SDF_unique_stations ss (key # seen) (unique_stations @ [s])
         else SDF_unique_stations ss seen unique_stations)"

text \<open>
  \<^verbatim>\<open>all_stations\<close> before deduplication: the answers of the clients or, when they
  gave no station, the fallback list, whose exception leaves the function.
\<close>

definition SDF_all_stations :: "SDF \<Rightarrow> real \<Rightarrow> real \<Rightarrow> real \<Rightarrow> exn + ranked_station list" where
  "SDF_all_stations self lat lon max_radius_km =
     (let all_stations = SDF_query_clients lat lon max_radius_km (sdf_clients self) []
      in if all_stations = []
         then SDF_get_fallback_stations lat lon max_radius_km
         else Inr all_stations)"

definition SDF_get_nearest_stations ::
  "SDF \<Rightarrow> real \<Rightarrow> real \<Rightarrow> real \<Rightarrow> int \<Rightarrow> exn + ranked_station list" where
  "SDF_get_nearest_stations self lat lon max_radius_km max_stations =
     (case SDF_all_stations self lat lon max_radius_km of
        Inl e \<Rightarrow> Inl e
      | Inr all_stations \<Rightarrow>
          Inr (py_slice_to max_stations
                 (sort_key distance_km (SDF_unique_stations all_stations [] []))))"





subsection \<open>RetrievalPipeline\<close>

text \<open>
  \<^verbatim>\<open>ProductionSeismicFetcher.get_waveforms\<close>. The loop over \<^verbatim>\<open>channel_sets\<close>
  carries the list of the requests sent so far:
  \<^verbatim>\<open>
  for channels in channel_sets:
      try:
          waveforms = self.client.get_waveforms(network=network, station=station,
              location="*", channel=channels, starttime=starttime, endtime=endtime)
          if waveforms and len(waveforms) > 0:
              return waveforms, f"IRIS-{channels}"
      except Exception:
          continue
      time.sleep(0.2)
  return None, "No data found"
  \<close>
  A stream is true, and its length positive, when it has at least one trace.
\<close>

definition PSF_channel_sets :: "string list" where
  "PSF_channel_sets = [''BH*'', ''HH*'', ''LH*'', ''BHZ'', ''HHZ'']"

fun PSF_try_channels ::
  "fdsn_client \<Rightarrow> string \<Rightarrow> string \<Rightarrow> instant \<Rightarrow> instant \<Rightarrow> string list \<Rightarrow> call list
     \<Rightarrow> (stream option \<times> string) \<times> call list" where
  "PSF_try_channels c net sta t0 t1 [] lg = ((None, ''No data found''), lg)"
| "PSF_try_channels c net sta t0 t1 (channels # rest) lg =
     (let lg' = lg @ [GetWaveforms ''IRIS'' net sta channels t0 t1]
      in case get_waveforms c net sta channels t0 t1 of
           Inl e \<Rightarrow> PSF_try_channels c net sta t0 t1 rest lg'
         | Inr waveforms \<Rightarrow>
             if waveforms \<noteq> [] then ((Some waveforms, ''IRIS-'' @ channels), lg')
             else PSF_try_channels c net sta t0 t1 rest lg')"

definition PSF_get_waveforms ::
  "PSF \<Rightarrow> string \<Rightarrow> string \<Rightarrow> instant \<Rightarrow> instant \<Rightarrow> call list
     \<Rightarrow> (stream option \<times> string) \<times> call list" where
  "PSF_get_waveforms self net sta start_time end_time lg =
     (case psf_client self of
        None \<Rightarrow> ((None, ''No client available''), lg)
      | Some c \<Rightarrow> PSF_try_channels c net sta start_time end_time PSF_channel_sets lg)"

text \<open>
  \<^verbatim>\<open>SeismicDataFetcher.get_seismic_waveforms\<close>: for every client, in the order of the
  dictionary, every channel. Both \<^verbatim>\<open>except\<close> clauses fall through to the next
  channel. The inner loop yields the stream and the client's name when a request
  succeeds.
\<close>

definition SDF_default_channels :: "string list" where
  "SDF_default_channels = [''BHZ'', ''HHZ'', ''BHN'', ''BHE'']"

fun SDF_try_channels ::
  "string \<Rightarrow> fdsn_client \<Rightarrow> string \<Rightarrow> string \<Rightarrow> instant \<Rightarrow> instant \<Rightarrow> string list
     \<Rightarrow> call list \<Rightarrow> (stream \<times> string) option \<times> call list" where
  "SDF_try_channels cn c net sta t0 t1 [] lg = (None, lg)"
| "SDF_try_channels cn c net sta t0 t1 (channel # rest) lg =
     (let lg' = lg @ [GetWaveforms cn net sta channel t0 t1]
      in case get_waveforms c net sta channel t0 t1 of
           Inl e \<Rightarrow> SDF_try_channels cn c net sta t0 t1 rest lg'
         | Inr waveforms \<Rightarrow>
             if waveforms \<noteq> [] then (Some (waveforms, cn), lg')
             else SDF_try_channels cn c net sta t0 t1 rest lg')"

fun SDF_try_clients ::
  "(string \<times> fdsn_client) list \<Rightarrow> string \<Rightarrow> string \<Rightarrow> instant \<Rightarrow> instant \<Rightarrow> string list
     \<Rightarrow> call list \<Rightarrow> (stream option \<times> string option) \<times> call list" where
  "SDF_try_clients [] net sta t0 t1 channels lg = ((None, None), lg)"
| "SDF_try_clients ((cn, c) # cs) net sta t0 t1 channels lg =
     (case SDF_try_channels cn c net sta t0 t1 channels lg of
        (Some (waveforms, client_name), lg') \<Rightarrow> ((Some waveforms, Some client_name), lg')
      | (None, lg') \<Rightarrow> SDF_try_clients cs net sta t0 t1 channels lg')"

definition SDF_get_seismic_waveforms ::
  "SDF \<Rightarrow> string \<Rightarrow> string \<Rightarrow> instant \<Rightarrow> instant \<Rightarrow> string list \<Rightarrow> call list
     \<Rightarrow> (stream option \<times> string option) \<times> call list" where
  "SDF_get_seismic_waveforms self net sta start_time end_time channels lg =
     SDF_try_clients (sdf_clients self) net sta start_time end_time channels lg"

text \<open>
  The fallback order each of them walks, as a sequence of (source, channel) pairs,
  and the request made for a pair.
\<close>

definition PSF_fallback_order :: "fdsn_client \<Rightarrow> (string \<times> fdsn_client \<times> string) list" where
  "PSF_fallback_order c = map (\<lambda>ch. (''IRIS'', c, ch)) PSF_channel_sets"

definition SDF_fallback_order ::
  "SDF \<Rightarrow> string list \<Rightarrow> (string \<times> fdsn_client \<times> string) list" where
  "SDF_fallback_order self channels =
     concat (map (\<lambda>(cn, c). map (\<lambda>ch. (cn, c, ch)) channels) (sdf_clients self))"

definition request_of ::
  "string \<Rightarrow> string \<Rightarrow> instant \<Rightarrow> instant \<Rightarrow> string \<times> fdsn_client \<times> string \<Rightarrow> call" where
  "request_of net sta t0 t1 p = (case p of (cn, c, ch) \<Rightarrow> GetWaveforms cn net sta ch t0 t1)"

text \<open>A fetch fails when it raises or returns a stream without traces.\<close>

definition fetch_fails ::
  "string \<Rightarrow> string \<Rightarrow> instant \<Rightarrow> instant \<Rightarrow> string \<times> fdsn_client \<times> string \<Rightarrow> bool" where
  "fetch_fails net sta t0 t1 p =
     (case p of (cn, c, ch) \<Rightarrow>
        (case get_waveforms c net sta ch t0 t1 of Inl e \<Rightarrow> True | Inr ws \<Rightarrow> ws = []))"

text \<open>
  The pipeline in the words of the specification: walk the fallback order, return on
  the first non-empty waveform with the name of its source, \<open>None\<close> when the order
  is exhausted.
\<close>

fun retrieve ::
  "string \<Rightarrow> string \<Rightarrow> instant \<Rightarrow> instant \<Rightarrow> (string \<times> fdsn_client \<times> string) list \<Rightarrow> call list
     \<Rightarrow> (stream \<times> string \<times> string) option \<times> call list" where
  "retrieve net sta t0 t1 [] lg = (None, lg)"
| "retrieve net sta t0 t1 ((cn, c, ch) # ps) lg =
     (let lg' = lg @ [GetWaveforms cn net sta ch t0 t1]
      in case get_waveforms c net sta ch t0 t1 of
           Inl e \<Rightarrow> retrieve net sta t0 t1 ps lg'
         | Inr ws \<Rightarrow> if ws \<noteq> [] then (Some (ws, cn, ch), lg') else retrieve net sta t0 t1 ps lg')"

subsection \<open>The archive\<close>

text \<open>
  The file system maps a path to a directory or to a file with its content; the
  world is the file system and the requests sent to remote services so far.
\<close>

record station_info =
  si_station :: ranked_station
  si_before :: bool
  si_after :: bool

record row =
  row_title :: string
  row_magnitude :: real
  row_date_time :: string
  row_latitude :: real
  row_longitude :: real
  row_location :: string

record metadata =
  md_event_info :: row
  md_datetime :: instant
  md_stations :: "station_info list"
  md_data_periods :: data_periods
  md_successful_retrievals :: "nat option"
  md_status :: string

datatype node = Dir | MSeedFile stream | JsonFile metadata

record world =
  fs :: "string \<rightharpoonup> node"
  log :: "call list"

text \<open>
  What the fetchers take from pandas, the standard library and the operating system:
  \<^verbatim>\<open>pd.to_datetime(s, format='%d-%m-%Y %H:%M')\<close> and \<^verbatim>\<open>pd.to_datetime(s)\<close>
  (\<open>None\<close> when they raise), \<^verbatim>\<open>strftime('%Y%m%d_%H%M')\<close>, the formatting of a
  float in an f-string, \<^verbatim>\<open>str.isalnum\<close> on one character (true of every letter and
  digit of Unicode, never of a white-space character), and whether a path can be
  created or written (otherwise the operation raises \<^verbatim>\<open>OSError\<close>).
\<close>

record env =
  to_datetime_fmt :: "string \<Rightarrow> instant option"
  to_datetime :: "string \<Rightarrow> instant option"
  strftime :: "instant \<Rightarrow> string"
  str_of_float :: "real \<Rightarrow> string"
  str_isalnum :: "char \<Rightarrow> bool"
  can_write :: "string \<Rightarrow> bool"

text \<open>\<^verbatim>\<open>os.path.exists\<close>, \<^verbatim>\<open>os.makedirs(p, exist_ok=True)\<close>, writing a file, and
  \<^verbatim>\<open>os.path.join\<close> of two components.\<close>

definition path_exists :: "world \<Rightarrow> string \<Rightarrow> bool" where
  "path_exists w p = (fs w p \<noteq> None)"

definition makedirs :: "env \<Rightarrow> string \<Rightarrow> world \<Rightarrow> exn + world" where
  "makedirs e p w =
     (if can_write e p \<and> (fs w p = None \<or> fs w p = Some Dir)
      then Inr (w\<lparr>fs := (fs w)(p \<mapsto> Dir)\<rparr>)
      else Inl OSError)"

definition write_file :: "env \<Rightarrow> string \<Rightarrow> node \<Rightarrow> world \<Rightarrow> exn + world" where
  "write_file e p content w =
     (if can_write e p \<and> fs w p \<noteq> Some Dir
      then Inr (w\<lparr>fs := (fs w)(p \<mapsto> content)\<rparr>)
      else Inl OSError)"

definition path_join :: "string \<Rightarrow> string \<Rightarrow> string" where
  "path_join a b =
     (if b \<noteq> [] \<and> hd b = CHR ''/'' then b
      else if a = [] \<or> last a = CHR ''/'' then a @ b
      else a @ ''/'' @ b)"

text \<open>
  \<^verbatim>\<open>
  safe_title = "".join(c for c in title if c.isalnum() or c in (' ', '-', '_')).rstrip()
  safe_title = safe_title.replace(' ', '_')[:60]
  \<close>
  The other class cuts at 100. Of the characters that pass the filter only the space
  is white space, so \<^verbatim>\<open>rstrip\<close> removes the trailing spaces.
\<close>

definition rstrip :: "string \<Rightarrow> string" where
  "rstrip s = rev (dropWhile (\<lambda>c. c = CHR '' '') (rev s))"

definition safe_title :: "env \<Rightarrow> nat \<Rightarrow> string \<Rightarrow> string" where
  "safe_title e n title =
     take n (map (\<lambda>c. if c = CHR '' '' then CHR ''_'' else c)
               (rstrip (filter (\<lambda>c. str_isalnum e c \<or> c = CHR '' '' \<or> c = CHR ''-''
                                       \<or> c = CHR ''_'') title)))"

text \<open>The two nested \<^verbatim>\<open>try\<close> around \<^verbatim>\<open>pd.to_datetime\<close>.\<close>

definition parse_datetime :: "env \<Rightarrow> string \<Rightarrow> instant option" where
  "parse_datetime e date_str =
     (case to_datetime_fmt e date_str of
        Some t \<Rightarrow> Some t
      | None \<Rightarrow> to_datetime e date_str)"

definition event_dir_of :: "env \<Rightarrow> string \<Rightarrow> nat \<Rightarrow> row \<Rightarrow> instant \<Rightarrow> string" where
  "event_dir_of e data_dir n r event_time =
     path_join data_dir
       (strftime e event_time @ ''_M'' @ str_of_float e (row_magnitude r) @ ''_''
          @ safe_title e n (row_title r))"

definition waveform_file :: "string \<Rightarrow> string \<Rightarrow> string \<Rightarrow> string \<Rightarrow> string" where
  "waveform_file dir net sta which = path_join dir (net @ ''_'' @ sta @ ''_'' @ which @ ''.mseed'')"

definition metadata_file :: "string \<Rightarrow> string" where
  "metadata_file event_dir = path_join event_dir ''metadata.json''"

subsection \<open>EventArchiver\<close>

text \<open>
  Writing a stream when there is one. In \<^verbatim>\<open>ProductionSeismicFetcher\<close>:
  \<^verbatim>\<open>
  if before_waveforms:
      try:
          before_waveforms.write(before_file, format='MSEED')
          station_info['data_retrieved']['before'] = True
          successful_retrievals += 1
      except Exception as e:
          print(...)
  \<close>
  and in \<^verbatim>\<open>SeismicDataFetcher\<close> the same through \<^verbatim>\<open>save_waveform_data\<close>, which
  returns \<^verbatim>\<open>False\<close> on an exception. The result tells whether the file was written.
\<close>

definition save_waveform_data :: "env \<Rightarrow> stream option \<Rightarrow> string \<Rightarrow> world \<Rightarrow> bool \<times> world" where
  "save_waveform_data e waveforms filepath w =
     (case waveforms of
        None \<Rightarrow> (False, w)
      | Some ws \<Rightarrow>
          if ws = [] then (False, w)
          else (case write_file e filepath (MSeedFile ws) w of
                  Inl ex \<Rightarrow> (False, w)
                | Inr w' \<Rightarrow> (True, w')))"

text \<open>
  The loop over the stations in \<^verbatim>\<open>ProductionSeismicFetcher.process_earthquake\<close>:
  the before window, then the after window, of each station in turn. Reading
  \<^verbatim>\<open>station['name']\<close> raises \<^verbatim>\<open>KeyError\<close> when the key is absent.
\<close>

fun PSF_process_stations ::
  "env \<Rightarrow> PSF \<Rightarrow> string \<Rightarrow> string \<Rightarrow> data_periods \<Rightarrow> ranked_station list
     \<Rightarrow> station_info list \<Rightarrow> nat \<Rightarrow> world
     \<Rightarrow> (exn + station_info list \<times> nat) \<times> world" where
  "PSF_process_stations e self before_dir after_dir p [] station_results successful w =
     (Inr (station_results, successful), w)"
| "PSF_process_stations e self before_dir after_dir p (s # ss) station_results successful w =
     (case name s of
        None \<Rightarrow> (Inl KeyError, w)
      | Some nm \<Rightarrow>
          (case PSF_get_waveforms self (network s) (station s)
                  (before_start p) (before_end p) (log w) of
             ((before_waveforms, before_msg), lg1) \<Rightarrow>
               (case save_waveform_data e before_waveforms
                       (waveform_file before_dir (network s) (station s) ''before'')
                       (w\<lparr>log := lg1\<rparr>) of
                  (before_ok, w1) \<Rightarrow>
                    (case PSF_get_waveforms self (network s) (station s)
                            (after_start p) (after_end p) (log w1) of
                       ((after_waveforms, after_msg), lg2) \<Rightarrow>
                         (case save_waveform_data e after_waveforms
                                 (waveform_file after_dir (network s) (station s) ''after'')
                                 (w1\<lparr>log := lg2\<rparr>) of
                            (after_ok, w2) \<Rightarrow>
                              PSF_process_stations e self before_dir after_dir p ss
                                (station_results @
                                   [\<lparr> si_station = s, si_before = before_ok,
                                      si_after = after_ok \<rparr>])
                                (successful + (if before_ok then 1 else 0)
                                   + (if after_ok then 1 else 0))
                                w2)))))"

text \<open>
  The body of the \<^verbatim>\<open>try\<close> of \<^verbatim>\<open>ProductionSeismicFetcher.process_earthquake\<close>.
  The result is the exception that leaves the body, or the value returned: the event
  directory, or \<^verbatim>\<open>None\<close>.
\<close>

definition PSF_process_earthquake_body ::
  "env \<Rightarrow> PSF \<Rightarrow> row \<Rightarrow> world \<Rightarrow> (exn + string option) \<times> world" where
  "PSF_process_earthquake_body e self r w =
     (case parse_datetime e (row_date_time r) of
        None \<Rightarrow> (Inr None, w)
      | Some event_time \<Rightarrow>
          (let event_dir = event_dir_of e (psf_data_dir self) 60 r event_time;
               before_dir = path_join event_dir ''before_event'';
               after_dir = path_join event_dir ''after_event'';
               p = PSF_data_periods event_time
           in if path_exists w event_dir then (Inr (Some event_dir), w)
              else
                (case makedirs e event_dir w of
                   Inl ex \<Rightarrow> (Inl ex, w)
                 | Inr w1 \<Rightarrow>
                (case makedirs e before_dir w1 of
                   Inl ex \<Rightarrow> (Inl ex, w1)
                 | Inr w2 \<Rightarrow>
                (case makedirs e after_dir w2 of
                   Inl ex \<Rightarrow> (Inl ex, w2)
                 | Inr w3 \<Rightarrow>
                (case PSF_get_nearest_stations self (row_latitude r) (row_longitude r) 4000 3 of
                   Inl ex \<Rightarrow> (Inl ex, w3)
                 | Inr stations \<Rightarrow>
                     if stations = [] then (Inr None, w3)
                     else
                       (case PSF_process_stations e self before_dir after_dir p stations [] 0 w3 of
                          (Inl ex, w4) \<Rightarrow> (Inl ex, w4)
                        | (Inr (station_results, successful), w4) \<Rightarrow>
                            (case write_file e (metadata_file event_dir)
                                    (JsonFile
                                       \<lparr> md_event_info = r, md_datetime = event_time,
                                         md_stations = station_results, md_data_periods = p,
                                         md_successful_retrievals = Some successful,
                                         md_status = ''completed'' \<rparr>) w4 of
                               Inl ex \<Rightarrow> (Inl ex, w4)
                             | Inr w5 \<Rightarrow> (Inr (Some event_dir), w5)))))))))"

text \<open>\<^verbatim>\<open>except Exception as e: ...; return None\<close>.\<close>

definition PSF_process_earthquake ::
  "env \<Rightarrow> PSF \<Rightarrow> row \<Rightarrow> world \<Rightarrow> string option \<times> world" where
  "PSF_process_earthquake e self r w =
     (case PSF_process_earthquake_body e self r w of
        (Inl ex, w') \<Rightarrow> (None, w')
      | (Inr result, w') \<Rightarrow> (result, w'))"

text \<open>
  The loop over \<^verbatim>\<open>stations[:3]\<close> in \<^verbatim>\<open>SeismicDataFetcher.process_earthquake\<close>.
  The summaries of the waveforms are not part of the model.
\<close>

fun SDF_process_stations ::
  "env \<Rightarrow> SDF \<Rightarrow> string \<Rightarrow> string \<Rightarrow> data_periods \<Rightarrow> ranked_station list
     \<Rightarrow> station_info list \<Rightarrow> world \<Rightarrow> station_info list \<times> world" where
  "SDF_process_stations e self before_dir after_dir p [] station_data w = (station_data, w)"
| "SDF_process_stations e self before_dir after_dir p (s # ss) station_data w =
     (case SDF_get_seismic_waveforms self (network s) (station s)
             (before_start p) (before_end p) SDF_default_channels (log w) of
        ((before_waveforms, before_client), lg1) \<Rightarrow>
          (case save_waveform_data e before_waveforms
                  (waveform_file before_dir (network s) (station s) ''before'')
                  (w\<lparr>log := lg1\<rparr>) of
             (before_ok, w1) \<Rightarrow>
               (case SDF_get_seismic_waveforms self (network s) (station s)
                       (after_start p) (after_end p) SDF_default_channels (log w1) of
                  ((after_waveforms, after_client), lg2) \<Rightarrow>
                    (case save_waveform_data e after_waveforms
                            (waveform_file after_dir (network s) (station s) ''after'')
                            (w1\<lparr>log := lg2\<rparr>) of
                       (after_ok, w2) \<Rightarrow>
                         SDF_process_stations e self before_dir after_dir p ss
                           (station_data @
                              [\<lparr> si_station = s, si_before = before_ok, si_after = after_ok \<rparr>])
                           w2))))"

text \<open>
  The body of the \<^verbatim>\<open>try\<close> of \<^verbatim>\<open>SeismicDataFetcher.process_earthquake\<close>;
  \<^verbatim>\<open>get_nearest_stations\<close> is called with its defaults, 500 km and 5 stations, and
  sends one station query to every client.
\<close>

definition SDF_process_earthquake_body ::
  "env \<Rightarrow> SDF \<Rightarrow> row \<Rightarrow> world \<Rightarrow> (exn + string option) \<times> world" where
  "SDF_process_earthquake_body e self r w =
     (case parse_datetime e (row_date_time r) of
        None \<Rightarrow> (Inr None, w)
      | Some event_time \<Rightarrow>
          (let event_dir = event_dir_of e (sdf_data_dir self) 100 r event_time;
               before_dir = path_join event_dir ''before_event'';
               after_dir = path_join event_dir ''after_event'';
               p = SDF_data_periods event_time
           in if path_exists w event_dir then (Inr (Some event_dir), w)
              else
                (case makedirs e event_dir w of
                   Inl ex \<Rightarrow> (Inl ex, w)
                 | Inr w1 \<Rightarrow>
                (let w2 = w1\<lparr>log := log w1 @
                            SDF_station_calls self (row_latitude r) (row_longitude r) 500\<rparr>
                 in case SDF_get_nearest_stations self (row_latitude r) (row_longitude r) 500 5 of
                   Inl ex \<Rightarrow> (Inl ex, w2)
                 | Inr stations \<Rightarrow>
                     if stations = [] then
                       (case write_file e (metadata_file event_dir)
                               (JsonFile
                                  \<lparr> md_event_info = r, md_datetime = event_time,
                                    md_stations = [], md_data_periods = p,
                                    md_successful_retrievals = None,
                                    md_status = ''no_stations_found'' \<rparr>) w2 of
                          Inl ex \<Rightarrow> (Inl ex, w2)
                        | Inr w3 \<Rightarrow> (Inr (Some event_dir), w3))
                     else
                       (case makedirs e before_dir w2 of
                          Inl ex \<Rightarrow> (Inl ex, w2)
                        | Inr w3 \<Rightarrow>
                       (case makedirs e after_dir w3 of
                          Inl ex \<Rightarrow> (Inl ex, w3)
                        | Inr w4 \<Rightarrow>
                       (case SDF_process_stations e self before_dir after_dir p
                               (py_slice_to 3 stations) [] w4 of
                          (station_data, w5) \<Rightarrow>
                            (case write_file e (metadata_file event_dir)
                                    (JsonFile
                                       \<lparr> md_event_info = r, md_datetime = event_time,
                                         md_stations = station_data, md_data_periods = p,
                                         md_successful_retrievals = None,
                                         md_status = ''completed'' \<rparr>) w5 of
                               Inl ex \<Rightarrow> (Inl ex, w5)
                             | Inr w6 \<Rightarrow> (Inr (Some event_dir), w6)))))))))"

definition SDF_process_earthquake ::
  "env \<Rightarrow> SDF \<Rightarrow> row \<Rightarrow> world \<Rightarrow> string option \<times> world" where
  "SDF_process_earthquake e self r w =
     (case SDF_process_earthquake_body e self r w of
        (Inl ex, w') \<Rightarrow> (None, w')
      | (Inr result, w') \<Rightarrow> (result, w'))"

subsection \<open>BatchRunner\<close>

text \<open>
  \<^verbatim>\<open>
  for index, row in df.iterrows():
      result = self.process_earthquake(row, index - start_from + 1, len(df))
      if result:
          successful += 1
      else:
          failed += 1
  \<close>
  The loops of \<^verbatim>\<open>process_all_earthquakes\<close> and \<^verbatim>\<open>fetch_all_earthquake_data\<close>
  carry the two counters; a result is true when it is a non-empty path.
\<close>

definition truthy :: "string option \<Rightarrow> bool" where
  "truthy result = (case result of None \<Rightarrow> False | Some path \<Rightarrow> path \<noteq> [])"

fun PSF_process_all_earthquakes_loop ::
  "env \<Rightarrow> PSF \<Rightarrow> row list \<Rightarrow> nat \<Rightarrow> nat \<Rightarrow> world \<Rightarrow> (nat \<times> nat) \<times> world" where
  "PSF_process_all_earthquakes_loop e self [] successful failed w = ((successful, failed), w)"
| "PSF_process_all_earthquakes_loop e self (r # rows) successful failed w =
     (case PSF_process_earthquake e self r w of
        (result, w') \<Rightarrow>
          if truthy result
          then PSF_process_all_earthquakes_loop e self rows (successful + 1) failed w'
          else PSF_process_all_earthquakes_loop e self rows successful (failed + 1) w')"

fun SDF_fetch_all_earthquake_data_loop ::
  "env \<Rightarrow> SDF \<Rightarrow> row list \<Rightarrow> nat \<Rightarrow> nat \<Rightarrow> world \<Rightarrow> (nat \<times> nat) \<times> world" where
  "SDF_fetch_all_earthquake_data_loop e self [] successful failed w = ((successful, failed), w)"
| "SDF_fetch_all_earthquake_data_loop e self (r # rows) successful failed w =
     (case SDF_process_earthquake e self r w of
        (result, w') \<Rightarrow>
          if truthy result
          then SDF_fetch_all_earthquake_data_loop e self rows (successful + 1) failed w'
          else SDF_fetch_all_earthquake_data_loop e self rows successful (failed + 1) w')"

subsection \<open>Example fetchers\<close>

text \<open>
  Two data centres that know the station IU.ANMO under different coordinates, on the
  meridian of the query point, and a data centre whose answer lies outside the radius
  asked for. None of them has waveform data.
\<close>

definition no_waveforms :: "string \<Rightarrow> string \<Rightarrow> string \<Rightarrow> instant \<Rightarrow> instant \<Rightarrow> exn + stream" where
  "no_waveforms n s c t0 t1 = Inl (FDSNException ''No data available'')"

definition ex_client_a :: fdsn_client where
  "ex_client_a =
     \<lparr> get_stations = (\<lambda>lat lon r. Inr [InvNetwork ''IU'' [InvStation ''ANMO'' 2 0 None None]]),
       get_waveforms = no_waveforms \<rparr>"

definition ex_client_b :: fdsn_client where
  "ex_client_b =
     \<lparr> get_stations = (\<lambda>lat lon r.
         Inr [InvNetwork ''IU'' [InvStation ''ANMO'' 1 0 None None,
                                 InvStation ''HRV'' 3 0 None None]]),
       get_waveforms = no_waveforms \<rparr>"

definition ex_client_far :: fdsn_client where
  "ex_client_far =
     \<lparr> get_stations = (\<lambda>lat lon r. Inr [InvNetwork ''IU'' [InvStation ''ANMO'' 10 0 None None]]),
       get_waveforms = no_waveforms \<rparr>"

definition ex_sdf :: SDF where
  "ex_sdf = \<lparr> sdf_data_dir = ''seismic_station_data'',
              sdf_clients = [(''IRIS'', ex_client_a), (''USGS'', ex_client_b)] \<rparr>"

definition ex_sdf_far :: SDF where
  "ex_sdf_far = \<lparr> sdf_data_dir = ''seismic_station_data'',
                  sdf_clients = [(''IRIS'', ex_client_far)] \<rparr>"

definition ex_anmo_a :: ranked_station where
  "ex_anmo_a = inventory_station ''IRIS'' ''IU'' (InvStation ''ANMO'' 2 0 None None) (2 * pi / 180 * 6371)"

definition ex_anmo_b :: ranked_station where
  "ex_anmo_b = inventory_station ''USGS'' ''IU'' (InvStation ''ANMO'' 1 0 None None) (1 * pi / 180 * 6371)"

definition ex_hrv_b :: ranked_station where
  "ex_hrv_b = inventory_station ''USGS'' ''IU'' (InvStation ''HRV'' 3 0 None None) (3 * pi / 180 * 6371)"

definition ex_anmo_far :: ranked_station where
  "ex_anmo_far = inventory_station ''IRIS'' ''IU'' (InvStation ''ANMO'' 10 0 None None) (10 * pi / 180 * 6371)"

text \<open>
  A data centre that has an empty stream for channel BHZ, one trace for HHZ and for
  \<^verbatim>\<open>LH*\<close>, and nothing else; fetchers that use it.
\<close>

definition ex_stream :: stream where
  "ex_stream = [Trace ''HHZ'' [3, - 1, 4]]"

definition ex_waveforms :: "string \<Rightarrow> string \<Rightarrow> string \<Rightarrow> instant \<Rightarrow> instant \<Rightarrow> exn + stream" where
  "ex_waveforms n s c t0 t1 =
     (if c = ''BHZ'' then Inr []
      else if c = ''HHZ'' \<or> c = ''LH*'' then Inr ex_stream
      else Inl (FDSNException ''No data available''))"

definition ex_client_w :: fdsn_client where
  "ex_client_w =
     \<lparr> get_stations = (\<lambda>lat lon r. Inr [InvNetwork ''IU'' [InvStation ''ANMO'' 1 0 None None]]),
       get_waveforms = ex_waveforms \<rparr>"

definition ex_sdf_w :: SDF where
  "ex_sdf_w = \<lparr> sdf_data_dir = ''seismic_station_data'',
                sdf_clients = [(''IRIS'', ex_client_a), (''USGS'', ex_client_w)] \<rparr>"

definition ex_psf_w :: PSF where
  "ex_psf_w = PSF_init ''seismic_station_data'' (Some ex_client_w)"

definition ex_psf_none :: PSF where
  "ex_psf_none = PSF_init ''seismic_station_data'' (Some ex_client_a)"

text \<open>
  An environment that parses the catalogue date of the event of 6 February 2023,
  knows the letters and digits of Latin-1, and allows every write; the same
  environment on a read-only disk, the row of the event,
  an empty world, and a fetcher whose only built-in station is at the north pole.
\<close>

definition ex_isalnum :: "char \<Rightarrow> bool" where
  "ex_isalnum c =
     (let n = of_char c :: nat
      in (48 \<le> n \<and> n \<le> 57) \<or> (65 \<le> n \<and> n \<le> 90) \<or> (97 \<le> n \<and> n \<le> 122)
         \<or> 192 \<le> n \<and> n \<noteq> 215 \<and> n \<noteq> 247)"

definition ex_env :: env where
  "ex_env =
     \<lparr> to_datetime_fmt = (\<lambda>s. if s = ''06-02-2023 01:17'' then Some 1675646220 else None),
       to_datetime = (\<lambda>s. None),
       strftime = (\<lambda>t. ''20230206_0117''),
       str_of_float = (\<lambda>x. ''7.8''),
       str_isalnum = ex_isalnum,
       can_write = (\<lambda>p. True) \<rparr>"

definition ex_env_readonly :: env where
  "ex_env_readonly = ex_env\<lparr>can_write := (\<lambda>p. False)\<rparr>"

definition ex_row :: row where
  "ex_row =
     \<lparr> row_title = ''M 7.8 - Pazarcik earthquake'', row_magnitude = 7.8,
       row_date_time = ''06-02-2023 01:17'', row_latitude = 0, row_longitude = 0,
       row_location = ''Turkey'' \<rparr>"

definition ex_world :: world where
  "ex_world = \<lparr> fs = Map.empty, log = [] \<rparr>"

definition ex_psf_pole :: PSF where
  "ex_psf_pole =
     \<lparr> psf_data_dir = ''seismic_station_data'', psf_client = Some ex_client_w,
       psf_global_stations =
         [\<lparr> network = ''IU'', station = ''ALE'', latitude = 90, longitude = 0,
            name = Some ''Alert'' \<rparr>] \<rparr>"

text \<open>A fetcher with two built-in stations, one degree and ninety degrees north of (0, 0).\<close>

definition ex_psf_two :: PSF where
  "ex_psf_two =
     \<lparr> psf_data_dir = ''seismic_station_data'', psf_client = Some ex_client_w,
       psf_global_stations =
         [\<lparr> network = ''IU'', station = ''ALE'', latitude = 90, longitude = 0,
            name = Some ''Alert'' \<rparr>,
          \<lparr> network = ''GE'', station = ''SUMG'', latitude = 1, longitude = 0,
            name = Some ''Sumatra'' \<rparr>] \<rparr>"

definition ex_sumg :: ranked_station where
  "ex_sumg =
     station_copy \<lparr> network = ''GE'', station = ''SUMG'', latitude = 1, longitude = 0,
                    name = Some ''Sumatra'' \<rparr> (1 * pi / 180 * 6371)"

text \<open>
  An event in southern Angola, at 15 degrees south and 15 degrees east, on the same
  date; a data centre that answers no query; a data centre whose first stream has a
  trace without samples.
\<close>

definition ex_row_angola :: row where
  "ex_row_angola =
     \<lparr> row_title = ''M 7.8 - 50 km S of Lubango, Angola'', row_magnitude = 7.8,
       row_date_time = ''06-02-2023 01:17'', row_latitude = - 15, row_longitude = 15,
       row_location = ''Angola'' \<rparr>"

definition ex_client_silent :: fdsn_client where
  "ex_client_silent =
     \<lparr> get_stations = (\<lambda>lat lon r. Inl (FDSNException ''No data available'')),
       get_waveforms = no_waveforms \<rparr>"

definition ex_sdf_silent :: SDF where
  "ex_sdf_silent = \<lparr> sdf_data_dir = ''seismic_station_data'',
                     sdf_clients = [(''IRIS'', ex_client_silent)] \<rparr>"

definition ex_hollow_waveforms ::
  "string \<Rightarrow> string \<Rightarrow> string \<Rightarrow> instant \<Rightarrow> instant \<Rightarrow> exn + stream" where
  "ex_hollow_waveforms n s c t0 t1 =
     (if c = ''BHZ'' \<or> c = ''BH*'' then Inr [Trace c []]
      else if c = ''HHZ'' \<or> c = ''HH*'' then Inr ex_stream
      else Inl (FDSNException ''No data available''))"

definition ex_client_hollow :: fdsn_client where
  "ex_client_hollow =
     \<lparr> get_stations = (\<lambda>lat lon r. Inr [InvNetwork ''IU'' [InvStation ''ANMO'' 1 0 None None]]),
       get_waveforms = ex_hollow_waveforms \<rparr>"

definition ex_sdf_hollow :: SDF where
  "ex_sdf_hollow = \<lparr> sdf_data_dir = ''seismic_station_data'',
                     sdf_clients = [(''IRIS'', ex_client_hollow)] \<rparr>"

definition ex_psf_hollow :: PSF where
  "ex_psf_hollow = PSF_init ''seismic_station_data'' (Some ex_client_hollow)"

text \<open>
  An event directory that can be archived into: it does not exist, nothing exists
  at the places of its two subdirectories and of its metadata file, and the four
  can be created or written.
\<close>

definition writable_fresh :: "env \<Rightarrow> world \<Rightarrow> string \<Rightarrow> bool" where
  "writable_fresh e w event_dir =
     (\<not> path_exists w event_dir
      \<and> fs w (path_join event_dir ''before_event'') = None
      \<and> fs w (path_join event_dir ''after_event'') = None
      \<and> fs w (metadata_file event_dir) = None
      \<and> can_write e event_dir
      \<and> can_write e (path_join event_dir ''before_event'')
      \<and> can_write e (path_join event_dir ''after_event'')
      \<and> can_write e (metadata_file event_dir))"

text \<open>No place that was not a directory has become one.\<close>

definition no_new_dirs :: "world \<Rightarrow> world \<Rightarrow> string \<Rightarrow> bool" where
  "no_new_dirs w w' q = (fs w' q \<noteq> Some Dir \<or> fs w q = Some Dir)"

section \<open>Properties\<close>

subsection \<open>GeoDistance\<close>

lemma sin_half_squared: "(sin (x / 2))\<^sup>2 = (1 - cos x) / 2" for x :: real
proof -
  define y where "y = x / 2"
  have e: "x = 2 * y" by (simp add: y_def)
  have "cos (2 * y) = 1 - 2 * (sin y)\<^sup>2" by (rule cos_double_sin)
  then show ?thesis unfolding e y_def[symmetric] by simp
qed

lemma haversine_a_alt:
  "haversine_a p1 l1 p2 l2 =
     1 / 2 - (1 - (sin ((l2 - l1) / 2))\<^sup>2) * cos (p2 - p1) / 2
       + (sin ((l2 - l1) / 2))\<^sup>2 * cos (p1 + p2) / 2"
proof -
  have 2: "cos p1 * cos p2 = (cos (p2 - p1) + cos (p1 + p2)) / 2"
    using cos_times_cos [of p1 p2] by (simp add: cos_diff cos_add)
  show ?thesis
    unfolding haversine_a_def Let_def sin_half_squared [of "p2 - p1"] 2
    by (simp add: field_simps)
qed

lemma haversine_a_nonneg: "0 \<le> haversine_a p1 l1 p2 l2"
proof -
  define s where "s = (sin ((l2 - l1) / 2))\<^sup>2"
  have s: "0 \<le> s" "s \<le> 1" unfolding s_def by (simp_all add: abs_square_le_1)
  have c1: "cos (p2 - p1) \<le> 1" "- 1 \<le> cos (p1 + p2)" by simp_all
  have "(1 - s) * cos (p2 - p1) \<le> (1 - s) * 1"
    using s c1 by (intro mult_left_mono) auto
  moreover have "s * (- 1) \<le> s * cos (p1 + p2)"
    using s c1 by (intro mult_left_mono) auto
  ultimately show ?thesis
    unfolding haversine_a_alt s_def[symmetric] by (simp add: field_simps)
qed

lemma haversine_a_le_one: "haversine_a p1 l1 p2 l2 \<le> 1"
proof -
  define s where "s = (sin ((l2 - l1) / 2))\<^sup>2"
  have s: "0 \<le> s" "s \<le> 1" unfolding s_def by (simp_all add: abs_square_le_1)
  have c1: "- 1 \<le> cos (p2 - p1)" "cos (p1 + p2) \<le> 1" by simp_all
  have "(1 - s) * (- 1) \<le> (1 - s) * cos (p2 - p1)"
    using s c1 by (intro mult_left_mono) auto
  moreover have "s * cos (p1 + p2) \<le> s * 1"
    using s c1 by (intro mult_left_mono) auto
  ultimately show ?thesis
    unfolding haversine_a_alt s_def[symmetric] by (simp add: field_simps)
qed




text \<open>No domain error is ever raised: the function always returns the haversine value.\<close>

lemma calculate_distance_Inr:
  "calculate_distance lat1 lon1 lat2 lon2 = Inr (distance_km_of lat1 lon1 lat2 lon2)"
proof -
  define a where "a = haversine_a (radians lat1) (radians lon1) (radians lat2) (radians lon2)"
  have a: "0 \<le> a" "a \<le> 1"
    unfolding a_def by (rule haversine_a_nonneg, rule haversine_a_le_one)
  have s: "0 \<le> sqrt a" "sqrt a \<le> 1" using a by simp_all
  have s': "\<not> (sqrt a < - 1 \<or> 1 < sqrt a)" using s by linarith
  show ?thesis
    unfolding calculate_distance_def distance_km_of_def a_def[symmetric] Let_def
    using a s' by (simp add: py_sqrt_def py_asin_def)
qed






text \<open>On one meridian the distance is the arc between the latitudes.\<close>

lemma calculate_distance_same_lon:
  assumes "\<bar>lat2 - lat1\<bar> \<le> 180"
  shows "calculate_distance lat1 lon lat2 lon = Inr (\<bar>lat2 - lat1\<bar> * pi / 180 * 6371)"
proof -
  define x where "x = (radians lat2 - radians lat1) / 2"
  have xa: "\<bar>x\<bar> = \<bar>lat2 - lat1\<bar> * pi / 360"
  proof -
    have "x = (lat2 - lat1) * (pi / 360)"
      unfolding x_def radians_def by (simp add: field_simps)
    then have "\<bar>x\<bar> = \<bar>lat2 - lat1\<bar> * \<bar>pi / 360\<bar>" by (simp only: abs_mult)
    then show ?thesis by simp
  qed
  have xb: "\<bar>x\<bar> \<le> pi / 2" unfolding xa using assms pi_gt_zero
    by (simp add: field_simps)
  have a: "haversine_a (radians lat1) (radians lon) (radians lat2) (radians lon) = (sin x)\<^sup>2"
    by (simp add: haversine_a_def x_def)
  have s: "sqrt ((sin x)\<^sup>2) = sin \<bar>x\<bar>"
  proof -
    have "0 \<le> sin \<bar>x\<bar>" using xb pi_gt_zero by (intro sin_ge_zero) auto
    moreover have "\<bar>sin x\<bar> = \<bar>sin \<bar>x\<bar>\<bar>" by (cases "0 \<le> x") (simp_all add: abs_if)
    ultimately show ?thesis by simp
  qed
  have "arcsin (sin \<bar>x\<bar>) = \<bar>x\<bar>" using xb by (intro arcsin_sin) auto
  then have "distance_km_of lat1 lon lat2 lon = 2 * \<bar>x\<bar> * 6371"
    unfolding distance_km_of_def a s by simp
  then show ?thesis unfolding calculate_distance_Inr xa by simp
qed

subsection \<open>Time windows\<close>

text \<open>
  Claim C8. The before window is \<open>[t - 30 days, t - buffer]\<close> and the after window is
  \<open>[t + buffer, t + 30 days]\<close>, with a buffer of 2 hours in
  \<^verbatim>\<open>ProductionSeismicFetcher\<close> and of 1 hour in \<^verbatim>\<open>SeismicDataFetcher\<close>; in both,
  \<open>before.start < before.end < t < after.start < after.end\<close>. For
  2023-02-06T01:17:35Z and the 2-hour buffer, the before window ends 7200 seconds
  before the event and the after window starts 7200 seconds after it.
\<close>

theorem data_periods_ordered:
  "PSF_data_periods t =
     \<lparr> before_start = t - 30 * 86400, before_end = t - 2 * 3600,
       after_start = t + 2 * 3600, after_end = t + 30 * 86400 \<rparr>
   \<and> SDF_data_periods t =
     \<lparr> before_start = t - 30 * 86400, before_end = t - 1 * 3600,
       after_start = t + 1 * 3600, after_end = t + 30 * 86400 \<rparr>
   \<and> before_start (PSF_data_periods t) < before_end (PSF_data_periods t)
   \<and> before_end (PSF_data_periods t) < t
   \<and> t < after_start (PSF_data_periods t)
   \<and> after_start (PSF_data_periods t) < after_end (PSF_data_periods t)
   \<and> before_start (SDF_data_periods t) < before_end (SDF_data_periods t)
   \<and> before_end (SDF_data_periods t) < t
   \<and> t < after_start (SDF_data_periods t)
   \<and> after_start (SDF_data_periods t) < after_end (SDF_data_periods t)
   \<and> before_end (PSF_data_periods turkey_2023) = turkey_2023 - 7200
   \<and> after_start (PSF_data_periods turkey_2023) = turkey_2023 + 7200
   \<and> before_start (PSF_data_periods turkey_2023) = turkey_2023 - 2592000
   \<and> after_end (PSF_data_periods turkey_2023) = turkey_2023 + 2592000"
  by (simp add: PSF_data_periods_def SDF_data_periods_def timedelta_days_def
      timedelta_hours_def)

subsection \<open>StationResolver\<close>

lemma py_slice_to_take: "\<exists>k. py_slice_to n xs = take k xs"
  by (auto simp: py_slice_to_def)

lemma length_py_slice_to: "0 \<le> n \<Longrightarrow> int (length (py_slice_to n xs)) \<le> n"
  by (simp add: py_slice_to_def)

lemma set_py_slice_to: "set (py_slice_to n xs) \<subseteq> set xs"
  using py_slice_to_take [of n xs] by (auto dest: in_set_takeD)

lemma sorted_py_slice_to: "sorted (map f xs) \<Longrightarrow> sorted (map f (py_slice_to n xs))"
proof -
  assume a: "sorted (map f xs)"
  obtain k where k: "py_slice_to n xs = take k xs" using py_slice_to_take by blast
  have "sorted (take k (map f xs))" using a by (rule sorted_wrt_take)
  then show ?thesis by (simp add: k take_map)
qed

lemma distinct_py_slice_to: "distinct (map f xs) \<Longrightarrow> distinct (map f (py_slice_to n xs))"
proof -
  assume a: "distinct (map f xs)"
  obtain k where k: "py_slice_to n xs = take k xs" using py_slice_to_take by blast
  have "distinct (take k (map f xs))" using a by (rule distinct_take)
  then show ?thesis by (simp add: k take_map)
qed

lemma distinct_map_sort_key: "distinct (map g (sort_key f xs)) = distinct (map g xs)"
proof -
  have "mset (map g (sort_key f xs)) = mset (map g xs)" by simp
  then show ?thesis by (rule mset_eq_imp_distinct_iff)
qed

lemma identity_key_station_key:
  "identity_key s = identity_key t \<Longrightarrow> station_key s = station_key t"
  by (simp add: identity_key_def station_key_def)

lemma distinct_identity_key:
  assumes "distinct (map station_key xs)"
  shows "distinct (map identity_key xs)"
proof -
  have d: "distinct xs" and i: "inj_on station_key (set xs)"
    using assms by (simp_all add: distinct_map)
  have "inj_on identity_key (set xs)"
    by (rule inj_onI) (use i identity_key_station_key in \<open>blast dest: inj_onD\<close>)
  with d show ?thesis by (simp add: distinct_map)
qed

text \<open>The scan of the built-in list.\<close>

lemma PSF_scan_stations_eq:
  "PSF_scan_stations lat lon r ss acc =
     Inr (acc @ map (\<lambda>s. station_copy s (distance_km_of lat lon (latitude s) (longitude s)))
                 (filter (\<lambda>s. distance_km_of lat lon (latitude s) (longitude s) \<le> r) ss))"
  by (induction ss arbitrary: acc) (simp_all add: calculate_distance_Inr)

lemma SDF_scan_fallback_eq:
  "SDF_scan_fallback lat lon r ss acc =
     Inr (acc @ map (\<lambda>s. fallback_station s (distance_km_of lat lon (latitude s) (longitude s)))
                 (filter (\<lambda>s. distance_km_of lat lon (latitude s) (longitude s) \<le> r) ss))"
  by (induction ss arbitrary: acc) (simp_all add: calculate_distance_Inr)

lemma SDF_unique_stations_append:
  "SDF_unique_stations xs seen u = u @ SDF_unique_stations xs seen []"
proof (induction xs arbitrary: seen u)
  case Nil
  show ?case by simp
next
  case (Cons x xs)
  show ?case
    using Cons.IH [of "station_key x # seen" "u @ [x]"] Cons.IH [of "station_key x # seen" "[x]"]
      Cons.IH [of seen u]
    by (simp add: Let_def)
qed

lemma SDF_unique_stations_Cons:
  "SDF_unique_stations (x # xs) seen [] =
     (if station_key x \<notin> set seen then x # SDF_unique_stations xs (station_key x # seen) []
      else SDF_unique_stations xs seen [])"
  using SDF_unique_stations_append [of xs "station_key x # seen" "[x]"]
  by (simp add: Let_def)

lemma SDF_unique_stations_first:
  "s \<in> set (SDF_unique_stations xs seen []) \<Longrightarrow>
     station_key s \<notin> set seen \<and> find (\<lambda>t. station_key t = station_key s) xs = Some s"
proof (induction xs arbitrary: seen)
  case Nil
  then show ?case by simp
next
  case (Cons x xs)
  show ?case
  proof (cases "station_key x \<in> set seen")
    case True
    with Cons.prems have "s \<in> set (SDF_unique_stations xs seen [])"
      by (simp add: SDF_unique_stations_Cons del: SDF_unique_stations.simps)
    from Cons.IH [OF this] True show ?thesis by auto
  next
    case False
    with Cons.prems consider "s = x" | "s \<in> set (SDF_unique_stations xs (station_key x # seen) [])"
      by (auto simp: SDF_unique_stations_Cons simp del: SDF_unique_stations.simps)
    then show ?thesis
    proof cases
      case 1
      with False show ?thesis by simp
    next
      case 2
      from Cons.IH [OF this] show ?thesis by auto
    qed
  qed
qed

lemma SDF_unique_stations_distinct:
  "distinct (map station_key (SDF_unique_stations xs seen []))"
proof (induction xs arbitrary: seen)
  case Nil
  show ?case by simp
next
  case (Cons x xs)
  have "station_key x \<notin> station_key ` set (SDF_unique_stations xs (station_key x # seen) [])"
    using SDF_unique_stations_first [of _ xs "station_key x # seen"] by force
  with Cons.IH show ?case
    by (simp add: SDF_unique_stations_Cons del: SDF_unique_stations.simps)
qed



lemma SDF_get_fallback_stations_Inr:
  "\<exists>sts. SDF_get_fallback_stations lat lon r = Inr sts"
  by (simp add: SDF_get_fallback_stations_def SDF_scan_fallback_eq)

lemma SDF_all_stations_Inr: "\<exists>pool. SDF_all_stations self lat lon r = Inr pool"
  using SDF_get_fallback_stations_Inr [of lat lon r]
  by (auto simp: SDF_all_stations_def Let_def)

lemma SDF_get_nearest_stations_eq:
  "SDF_all_stations self lat lon r = Inr pool \<Longrightarrow>
   SDF_get_nearest_stations self lat lon r m =
     Inr (py_slice_to m (sort_key distance_km (SDF_unique_stations pool [] [])))"
  by (simp add: SDF_get_nearest_stations_def)

lemma PSF_get_nearest_stations_eq:
  "PSF_get_nearest_stations self lat lon r m =
     Inr (py_slice_to m (sort_key distance_km
       (map (\<lambda>s. station_copy s (distance_km_of lat lon (latitude s) (longitude s)))
          (filter (\<lambda>s. distance_km_of lat lon (latitude s) (longitude s) \<le> r)
             (psf_global_stations self)))))"
  by (simp add: PSF_get_nearest_stations_def PSF_scan_stations_eq)

lemma identity_key_station_copy: "identity_key (station_copy s d) = identity_key s"
  by (simp add: identity_key_def station_copy_def)

lemma PSF_init_distinct: "distinct (map identity_key (psf_global_stations (PSF_init dir c)))"
  by (simp add: PSF_init_def PSF_init_global_stations_def identity_key_def)

text \<open>
  Claim C5. Both resolvers return (they raise nothing); the result is sorted
  non-decreasing by \<open>distance_km\<close> and, for a non-negative \<open>max_stations\<close>, has at
  most \<open>max_stations\<close> entries. The result of \<^verbatim>\<open>SeismicDataFetcher\<close> has no two
  entries with the same identity key, whatever the clients answered; the result of
  \<^verbatim>\<open>ProductionSeismicFetcher\<close>, which does not deduplicate, has none when its
  built-in list has none, as the list of \<^verbatim>\<open>__init__\<close> does.
\<close>

theorem get_nearest_stations_distinct_sorted_bounded:
  "(\<exists>res. SDF_get_nearest_stations self lat lon r m = Inr res
       \<and> distinct (map identity_key res)
       \<and> sorted (map distance_km res)
       \<and> (0 \<le> m \<longrightarrow> int (length res) \<le> m))
   \<and> (\<exists>res. PSF_get_nearest_stations pself lat lon r m = Inr res
       \<and> sorted (map distance_km res)
       \<and> (0 \<le> m \<longrightarrow> int (length res) \<le> m)
       \<and> (distinct (map identity_key (psf_global_stations pself))
            \<longrightarrow> distinct (map identity_key res)))
   \<and> distinct (map identity_key (psf_global_stations (PSF_init dir c)))"
proof -
  obtain pool where pool: "SDF_all_stations self lat lon r = Inr pool"
    using SDF_all_stations_Inr by blast
  define u where "u = sort_key distance_km (SDF_unique_stations pool [] [])"
  have "distinct (map identity_key (SDF_unique_stations pool [] []))"
    by (rule distinct_identity_key) (rule SDF_unique_stations_distinct)
  then have du: "distinct (map identity_key u)"
    unfolding u_def by (simp only: distinct_map_sort_key)
  have su: "sorted (map distance_km u)" unfolding u_def by simp
  have 1: "SDF_get_nearest_stations self lat lon r m = Inr (py_slice_to m u)"
    unfolding u_def by (rule SDF_get_nearest_stations_eq [OF pool])
  have A: "\<exists>res. SDF_get_nearest_stations self lat lon r m = Inr res
       \<and> distinct (map identity_key res)
       \<and> sorted (map distance_km res)
       \<and> (0 \<le> m \<longrightarrow> int (length res) \<le> m)"
    using 1 distinct_py_slice_to [OF du, of m] sorted_py_slice_to [OF su, of m]
      length_py_slice_to [of m u] by blast
  define f where "f = filter (\<lambda>s. distance_km_of lat lon (latitude s) (longitude s) \<le> r)
             (psf_global_stations pself)"
  define g where "g = map (\<lambda>s. station_copy s (distance_km_of lat lon (latitude s) (longitude s))) f"
  define v where "v = sort_key distance_km g"
  have 2: "PSF_get_nearest_stations pself lat lon r m = Inr (py_slice_to m v)"
    unfolding v_def g_def f_def by (rule PSF_get_nearest_stations_eq)
  have sv: "sorted (map distance_km v)" unfolding v_def by simp
  have kg: "map identity_key g = map identity_key f"
    unfolding g_def by (simp add: identity_key_station_copy)
  have dv: "distinct (map identity_key v)"
    if "distinct (map identity_key (psf_global_stations pself))"
  proof -
    have "distinct (map identity_key f)" unfolding f_def using that by (rule distinct_map_filter)
    then have "distinct (map identity_key g)" by (simp only: kg)
    then show ?thesis unfolding v_def by (simp only: distinct_map_sort_key)
  qed
  have B: "\<exists>res. PSF_get_nearest_stations pself lat lon r m = Inr res
       \<and> sorted (map distance_km res)
       \<and> (0 \<le> m \<longrightarrow> int (length res) \<le> m)
       \<and> (distinct (map identity_key (psf_global_stations pself))
            \<longrightarrow> distinct (map identity_key res))"
    using 2 sorted_py_slice_to [OF sv, of m] length_py_slice_to [of m v]
      distinct_py_slice_to [OF dv, of m] by blast
  from A B PSF_init_distinct show ?thesis by blast
qed

theorem get_nearest_stations_distinct_sorted_bounded_witness:
  "(\<exists>res. SDF_get_nearest_stations ex_sdf 0 0 500 5 = Inr res
       \<and> distinct (map identity_key res)
       \<and> sorted (map distance_km res)
       \<and> int (length res) \<le> 5)
   \<and> (\<exists>res. PSF_get_nearest_stations (PSF_init ''seismic_station_data'' None) 0 0 500 5 = Inr res
       \<and> sorted (map distance_km res)
       \<and> int (length res) \<le> 5
       \<and> distinct (map identity_key res))"
  using get_nearest_stations_distinct_sorted_bounded
    [of ex_sdf 0 0 500 5 "PSF_init ''seismic_station_data'' None" "''seismic_station_data''" None]
  by auto


lemma ex_sdf_pool:
  "SDF_all_stations ex_sdf 0 0 500 = Inr [ex_anmo_a, ex_anmo_b, ex_hrv_b]"
  by (simp add: SDF_all_stations_def ex_sdf_def ex_client_a_def ex_client_b_def
      calculate_distance_same_lon ex_anmo_a_def ex_anmo_b_def ex_hrv_b_def)

lemma ex_sdf_result:
  "SDF_get_nearest_stations ex_sdf 0 0 500 5 = Inr [ex_anmo_a, ex_hrv_b]"
  by (simp add: SDF_get_nearest_stations_eq [OF ex_sdf_pool] ex_anmo_a_def ex_anmo_b_def
      ex_hrv_b_def inventory_station_def station_key_def py_slice_to_def)

text \<open>
  Claim C3, as stated, fails. Two data centres report IU.ANMO for a query at (0, 0)
  within 500 km, the first 2 degrees away and the second 1 degree away; the result
  keeps the entry of the first, which is the farther one.
\<close>

theorem nearest_duplicate_not_retained:
  "SDF_all_stations ex_sdf 0 0 500 = Inr [ex_anmo_a, ex_anmo_b, ex_hrv_b]
   \<and> SDF_get_nearest_stations ex_sdf 0 0 500 5 = Inr [ex_anmo_a, ex_hrv_b]
   \<and> identity_key ex_anmo_b = identity_key ex_anmo_a
   \<and> distance_km ex_anmo_b < distance_km ex_anmo_a
   \<and> distance_km ex_anmo_a \<le> 500"
proof -
  have "(2::real) \<le> pi" by (rule pi_ge_two)
  moreover have "pi < 4" using pi_less_4 by simp
  ultimately have "distance_km ex_anmo_b < distance_km ex_anmo_a \<and> distance_km ex_anmo_a \<le> 500"
    by (simp add: ex_anmo_a_def ex_anmo_b_def inventory_station_def)
  moreover have "identity_key ex_anmo_b = identity_key ex_anmo_a"
    by (simp add: identity_key_def ex_anmo_a_def ex_anmo_b_def inventory_station_def)
  ultimately show ?thesis using ex_sdf_pool ex_sdf_result by simp
qed

lemma find_identity_key:
  assumes "find (\<lambda>t. station_key t = station_key s) xs = Some s"
  shows "find (\<lambda>t. identity_key t = identity_key s) xs = Some s"
  using assms
proof (induction xs)
  case Nil
  then show ?case by simp
next
  case (Cons x xs)
  show ?case
  proof (cases "station_key x = station_key s")
    case True
    with Cons.prems have "x = s" by simp
    then show ?thesis by simp
  next
    case False
    then have "identity_key x \<noteq> identity_key s" using identity_key_station_key by blast
    with False Cons show ?thesis by simp
  qed
qed

lemma SDF_unique_stations_keys:
  "station_key ` set (SDF_unique_stations xs seen []) = station_key ` set xs - set seen"
proof (induction xs arbitrary: seen)
  case Nil
  show ?case by simp
next
  case (Cons x xs)
  show ?case
    using Cons.IH [of "station_key x # seen"] Cons.IH [of seen]
    by (auto simp: SDF_unique_stations_Cons simp del: SDF_unique_stations.simps)
qed

text \<open>
  Claim C3, amended. Before the cut to \<open>max_stations\<close>, the resolver of
  \<^verbatim>\<open>SeismicDataFetcher\<close> retains exactly one entry for every key
  \<^verbatim>\<open>f"{network}.{station}"\<close> of \<^verbatim>\<open>all_stations\<close>, and that entry is the one seen
  first, in the order of the clients and of their inventories, whatever the
  distances: the result is the cut of the retained entries sorted by distance, the
  keys of the retained entries are the keys of \<^verbatim>\<open>all_stations\<close>, no key is retained
  twice, and every retained entry is the first entry of \<^verbatim>\<open>all_stations\<close> with its
  key and with its identity (network_code, station_code).
\<close>

theorem SDF_get_nearest_stations_first_seen:
  "\<exists>pool kept. SDF_all_stations self lat lon r = Inr pool
     \<and> SDF_get_nearest_stations self lat lon r m
         = Inr (py_slice_to m (sort_key distance_km kept))
     \<and> station_key ` set kept = station_key ` set pool
     \<and> distinct (map station_key kept)
     \<and> (\<forall>s \<in> set kept. find (\<lambda>t. station_key t = station_key s) pool = Some s
                        \<and> find (\<lambda>t. identity_key t = identity_key s) pool = Some s)"
proof -
  obtain pool where pool: "SDF_all_stations self lat lon r = Inr pool"
    using SDF_all_stations_Inr by blast
  define kept where "kept = SDF_unique_stations pool [] []"
  have res: "SDF_get_nearest_stations self lat lon r m
         = Inr (py_slice_to m (sort_key distance_km kept))"
    unfolding kept_def by (rule SDF_get_nearest_stations_eq [OF pool])
  have keys: "station_key ` set kept = station_key ` set pool"
    unfolding kept_def by (simp add: SDF_unique_stations_keys)
  have dist: "distinct (map station_key kept)"
    unfolding kept_def by (rule SDF_unique_stations_distinct)
  have first: "find (\<lambda>t. station_key t = station_key s) pool = Some s
                 \<and> find (\<lambda>t. identity_key t = identity_key s) pool = Some s"
    if "s \<in> set kept" for s
  proof -
    from that have 1: "find (\<lambda>t. station_key t = station_key s) pool = Some s"
      unfolding kept_def by (rule SDF_unique_stations_first [THEN conjunct2])
    from 1 have "find (\<lambda>t. identity_key t = identity_key s) pool = Some s"
      by (rule find_identity_key)
    with 1 show ?thesis by (rule conjI)
  qed
  have all: "\<forall>s \<in> set kept. find (\<lambda>t. station_key t = station_key s) pool = Some s
                        \<and> find (\<lambda>t. identity_key t = identity_key s) pool = Some s"
    by (rule ballI) (rule first)
  from pool res keys dist all show ?thesis by (intro exI conjI)
qed

theorem SDF_get_nearest_stations_first_seen_witness:
  "SDF_all_stations ex_sdf 0 0 500 = Inr [ex_anmo_a, ex_anmo_b, ex_hrv_b]
   \<and> SDF_get_nearest_stations ex_sdf 0 0 500 5
       = Inr (py_slice_to 5 (sort_key distance_km [ex_anmo_a, ex_hrv_b]))
   \<and> station_key ` set [ex_anmo_a, ex_hrv_b] = station_key ` set [ex_anmo_a, ex_anmo_b, ex_hrv_b]
   \<and> find (\<lambda>t. identity_key t = identity_key ex_anmo_a) [ex_anmo_a, ex_anmo_b, ex_hrv_b]
       = Some ex_anmo_a
   \<and> find (\<lambda>t. identity_key t = identity_key ex_hrv_b) [ex_anmo_a, ex_anmo_b, ex_hrv_b]
       = Some ex_hrv_b"
proof -
  have k: "SDF_unique_stations [ex_anmo_a, ex_anmo_b, ex_hrv_b] [] [] = [ex_anmo_a, ex_hrv_b]"
    by (simp add: ex_anmo_a_def ex_anmo_b_def ex_hrv_b_def inventory_station_def station_key_def)
  from SDF_get_nearest_stations_first_seen [of ex_sdf 0 0 500 5]
  obtain kept where
    r: "SDF_get_nearest_stations ex_sdf 0 0 500 5 = Inr (py_slice_to 5 (sort_key distance_km kept))"
    and ks: "station_key ` set kept = station_key ` set [ex_anmo_a, ex_anmo_b, ex_hrv_b]"
    and f: "\<forall>s \<in> set kept. find (\<lambda>t. station_key t = station_key s) [ex_anmo_a, ex_anmo_b, ex_hrv_b] = Some s
                        \<and> find (\<lambda>t. identity_key t = identity_key s) [ex_anmo_a, ex_anmo_b, ex_hrv_b] = Some s"
    by (auto simp: ex_sdf_pool)
  have r': "SDF_get_nearest_stations ex_sdf 0 0 500 5
       = Inr (py_slice_to 5 (sort_key distance_km [ex_anmo_a, ex_hrv_b]))"
    by (simp only: SDF_get_nearest_stations_eq [OF ex_sdf_pool] k)
  have ks': "station_key ` set [ex_anmo_a, ex_hrv_b] = station_key ` set [ex_anmo_a, ex_anmo_b, ex_hrv_b]"
    by (simp add: ex_anmo_a_def ex_anmo_b_def ex_hrv_b_def inventory_station_def station_key_def)
  have "find (\<lambda>t. identity_key t = identity_key ex_anmo_a) [ex_anmo_a, ex_anmo_b, ex_hrv_b]
       = Some ex_anmo_a"
    by simp
  moreover have "find (\<lambda>t. identity_key t = identity_key ex_hrv_b) [ex_anmo_a, ex_anmo_b, ex_hrv_b]
       = Some ex_hrv_b"
    by (simp add: identity_key_def ex_anmo_a_def ex_anmo_b_def ex_hrv_b_def inventory_station_def)
  ultimately show ?thesis using ex_sdf_pool r' ks' r ks f by blast
qed

text \<open>
  The resolver of \<^verbatim>\<open>SeismicDataFetcher\<close> does not test the answer of a client
  against the radius itself: a data centre that answers a query at (0, 0) for 500 km
  with a station 10 degrees away has it returned, at more than 1000 km.
\<close>

lemma SDF_get_nearest_stations_beyond_radius:
  "SDF_get_nearest_stations ex_sdf_far 0 0 500 5 = Inr [ex_anmo_far]
   \<and> calculate_distance 0 0 (latitude ex_anmo_far) (longitude ex_anmo_far)
       = Inr (distance_km ex_anmo_far)
   \<and> 500 < distance_km ex_anmo_far"
proof -
  have pool: "SDF_all_stations ex_sdf_far 0 0 500 = Inr [ex_anmo_far]"
    by (simp add: SDF_all_stations_def ex_sdf_far_def ex_client_far_def
        calculate_distance_same_lon ex_anmo_far_def)
  have 1: "SDF_get_nearest_stations ex_sdf_far 0 0 500 5 = Inr [ex_anmo_far]"
    by (simp add: SDF_get_nearest_stations_eq [OF pool] py_slice_to_def)
  have 2: "calculate_distance 0 0 (latitude ex_anmo_far) (longitude ex_anmo_far)
       = Inr (distance_km ex_anmo_far)"
    by (simp add: ex_anmo_far_def inventory_station_def calculate_distance_same_lon)
  have "(2::real) \<le> pi" by (rule pi_ge_two)
  then have 3: "500 < distance_km ex_anmo_far"
    by (simp add: ex_anmo_far_def inventory_station_def)
  from 1 2 3 show ?thesis by simp
qed

subsection \<open>RetrievalPipeline\<close>

lemma retrieve_first_success:
  assumes "\<forall>p \<in> set pre. fetch_fails net sta t0 t1 p"
    and "get_waveforms c net sta ch t0 t1 = Inr ws" and "ws \<noteq> []"
  shows "retrieve net sta t0 t1 (pre @ (cn, c, ch) # post) lg =
           (Some (ws, cn, ch), lg @ map (request_of net sta t0 t1) (pre @ [(cn, c, ch)]))"
  using assms(1)
proof (induction pre arbitrary: lg)
  case Nil
  show ?case using assms(2,3) by (simp add: request_of_def)
next
  case (Cons p pre)
  obtain cn' c' ch' where p: "p = (cn', c', ch')" by (cases p) auto
  from Cons.prems have f: "fetch_fails net sta t0 t1 (cn', c', ch')"
    and rest: "\<forall>p \<in> set pre. fetch_fails net sta t0 t1 p" by (simp_all add: p)
  have "retrieve net sta t0 t1 ((cn', c', ch') # pre @ (cn, c, ch) # post) lg =
          retrieve net sta t0 t1 (pre @ (cn, c, ch) # post)
            (lg @ [GetWaveforms cn' net sta ch' t0 t1])"
    using f by (simp add: fetch_fails_def Let_def split: sum.splits)
  with Cons.IH [OF rest] show ?case by (simp add: p request_of_def)
qed

lemma retrieve_all_fail:
  assumes "\<forall>p \<in> set ps. fetch_fails net sta t0 t1 p"
  shows "retrieve net sta t0 t1 ps lg = (None, lg @ map (request_of net sta t0 t1) ps)"
  using assms
proof (induction ps arbitrary: lg)
  case Nil
  show ?case by simp
next
  case (Cons p ps)
  obtain cn' c' ch' where p: "p = (cn', c', ch')" by (cases p) auto
  from Cons.prems have f: "fetch_fails net sta t0 t1 (cn', c', ch')"
    and rest: "\<forall>p \<in> set ps. fetch_fails net sta t0 t1 p" by (simp_all add: p)
  have "retrieve net sta t0 t1 ((cn', c', ch') # ps) lg =
          retrieve net sta t0 t1 ps (lg @ [GetWaveforms cn' net sta ch' t0 t1])"
    using f by (simp add: fetch_fails_def Let_def split: sum.splits)
  with Cons.IH [OF rest] show ?case by (simp add: p request_of_def)
qed

lemma retrieve_append:
  "retrieve net sta t0 t1 (ps @ qs) lg =
     (case retrieve net sta t0 t1 ps lg of
        (Some r, lg') \<Rightarrow> (Some r, lg')
      | (None, lg') \<Rightarrow> retrieve net sta t0 t1 qs lg')"
proof (induction ps arbitrary: lg)
  case Nil
  show ?case by simp
next
  case (Cons p ps)
  obtain cn' c' ch' where p: "p = (cn', c', ch')" by (cases p) auto
  show ?case unfolding p using Cons.IH
    by (simp add: Let_def split: sum.splits)
qed

text \<open>Each source function walks its fallback order as the pipeline does.\<close>

lemma PSF_try_channels_retrieve:
  "PSF_try_channels c net sta t0 t1 chs lg =
     (case retrieve net sta t0 t1 (map (\<lambda>ch. (''IRIS'', c, ch)) chs) lg of
        (None, lg') \<Rightarrow> ((None, ''No data found''), lg')
      | (Some (ws, cn, ch), lg') \<Rightarrow> ((Some ws, ''IRIS-'' @ ch), lg'))"
  by (induction chs arbitrary: lg) (simp_all add: Let_def split: sum.splits)

lemma SDF_try_channels_retrieve:
  "SDF_try_channels cn c net sta t0 t1 chs lg =
     (case retrieve net sta t0 t1 (map (\<lambda>ch. (cn, c, ch)) chs) lg of
        (None, lg') \<Rightarrow> (None, lg')
      | (Some (ws, cn', ch), lg') \<Rightarrow> (Some (ws, cn'), lg'))"
  by (induction chs arbitrary: lg) (simp_all add: Let_def split: sum.splits)

lemma SDF_try_clients_retrieve:
  "SDF_try_clients cs net sta t0 t1 channels lg =
     (case retrieve net sta t0 t1
             (concat (map (\<lambda>(cn, c). map (\<lambda>ch. (cn, c, ch)) channels) cs)) lg of
        (None, lg') \<Rightarrow> ((None, None), lg')
      | (Some (ws, cn, ch), lg') \<Rightarrow> ((Some ws, Some cn), lg'))"
proof (induction cs arbitrary: lg)
  case Nil
  show ?case by simp
next
  case (Cons x cs)
  obtain cn c where x: "x = (cn, c)" by (cases x) auto
  show ?case unfolding x
    by (simp add: SDF_try_channels_retrieve retrieve_append Cons.IH
        split: prod.splits option.splits)
qed

lemma SDF_get_seismic_waveforms_retrieve:
  "SDF_get_seismic_waveforms self net sta t0 t1 channels lg =
     (case retrieve net sta t0 t1 (SDF_fallback_order self channels) lg of
        (None, lg') \<Rightarrow> ((None, None), lg')
      | (Some (ws, cn, ch), lg') \<Rightarrow> ((Some ws, Some cn), lg'))"
  by (simp add: SDF_get_seismic_waveforms_def SDF_fallback_order_def SDF_try_clients_retrieve)

lemma PSF_get_waveforms_retrieve:
  "psf_client self = Some c \<Longrightarrow>
   PSF_get_waveforms self net sta t0 t1 lg =
     (case retrieve net sta t0 t1 (PSF_fallback_order c) lg of
        (None, lg') \<Rightarrow> ((None, ''No data found''), lg')
      | (Some (ws, cn, ch), lg') \<Rightarrow> ((Some ws, ''IRIS-'' @ ch), lg'))"
  by (simp add: PSF_get_waveforms_def PSF_fallback_order_def PSF_try_channels_retrieve)

text \<open>
  Claim C6, counterexample. The data centre answers the first request of either
  fallback order with a stream of one trace that has no sample, and a later request
  with a trace of three samples. Both functions return the stream without samples
  after one request; the request that has samples is never sent.
\<close>

theorem hollow_stream_returned:
  "SDF_get_seismic_waveforms ex_sdf_hollow ''IU'' ''ANMO'' 0 3600 SDF_default_channels [] =
     ((Some [Trace ''BHZ'' []], Some ''IRIS''),
      [GetWaveforms ''IRIS'' ''IU'' ''ANMO'' ''BHZ'' 0 3600])
   \<and> PSF_get_waveforms ex_psf_hollow ''IU'' ''ANMO'' 0 3600 [] =
     ((Some [Trace ''BH*'' []], ''IRIS-BH*''),
      [GetWaveforms ''IRIS'' ''IU'' ''ANMO'' ''BH*'' 0 3600])
   \<and> tr_samples (Trace ''BHZ'' []) = []
   \<and> tr_samples (Trace ''BH*'' []) = []
   \<and> get_waveforms ex_client_hollow ''IU'' ''ANMO'' ''HHZ'' 0 3600 = Inr [Trace ''HHZ'' [3, - 1, 4]]
   \<and> get_waveforms ex_client_hollow ''IU'' ''ANMO'' ''HH*'' 0 3600 = Inr [Trace ''HHZ'' [3, - 1, 4]]"
  by (simp add: SDF_get_seismic_waveforms_def ex_sdf_hollow_def SDF_default_channels_def
      PSF_get_waveforms_def ex_psf_hollow_def PSF_init_def PSF_channel_sets_def
      ex_client_hollow_def ex_hollow_waveforms_def ex_stream_def Let_def)

text \<open>
  Claim C6, amended. Let the fallback order be \<open>pre @ (source, client, channel) # post\<close>,
  every fetch of \<open>pre\<close> fail (raise or return a stream without a trace) and the fetch
  of the pair return a stream with at least one trace, whether or not a trace of it
  has samples. Then the function returns that stream, and the requests it sent are
  those of \<open>pre\<close>, in order, followed by the successful one: none for \<open>post\<close>. This
  holds for \<^verbatim>\<open>get_seismic_waveforms\<close>, whose order is every channel for every client
  in turn, and for \<^verbatim>\<open>get_waveforms\<close>, whose order is the five channel sets on the
  IRIS client.
\<close>

theorem first_success_wins:
  "(SDF_fallback_order self channels = pre @ (cn, c, ch) # post
      \<and> (\<forall>p \<in> set pre. fetch_fails net sta t0 t1 p)
      \<and> get_waveforms c net sta ch t0 t1 = Inr ws \<and> ws \<noteq> []
    \<longrightarrow> SDF_get_seismic_waveforms self net sta t0 t1 channels lg =
          ((Some ws, Some cn), lg @ map (request_of net sta t0 t1) (pre @ [(cn, c, ch)])))
   \<and> (psf_client pself = Some pc
      \<and> PSF_fallback_order pc = pre' @ (cn', c', ch') # post'
      \<and> (\<forall>p \<in> set pre'. fetch_fails net' sta' t0' t1' p)
      \<and> get_waveforms c' net' sta' ch' t0' t1' = Inr ws' \<and> ws' \<noteq> []
    \<longrightarrow> PSF_get_waveforms pself net' sta' t0' t1' lg' =
          ((Some ws', ''IRIS-'' @ ch'),
           lg' @ map (request_of net' sta' t0' t1') (pre' @ [(cn', c', ch')])))"
proof (intro conjI impI)
  assume a: "SDF_fallback_order self channels = pre @ (cn, c, ch) # post
      \<and> (\<forall>p \<in> set pre. fetch_fails net sta t0 t1 p)
      \<and> get_waveforms c net sta ch t0 t1 = Inr ws \<and> ws \<noteq> []"
  then have "retrieve net sta t0 t1 (SDF_fallback_order self channels) lg =
      (Some (ws, cn, ch), lg @ map (request_of net sta t0 t1) (pre @ [(cn, c, ch)]))"
    using retrieve_first_success [of pre net sta t0 t1 c ch ws cn post lg] by simp
  then show "SDF_get_seismic_waveforms self net sta t0 t1 channels lg =
          ((Some ws, Some cn), lg @ map (request_of net sta t0 t1) (pre @ [(cn, c, ch)]))"
    by (simp add: SDF_get_seismic_waveforms_retrieve)
next
  assume a: "psf_client pself = Some pc
      \<and> PSF_fallback_order pc = pre' @ (cn', c', ch') # post'
      \<and> (\<forall>p \<in> set pre'. fetch_fails net' sta' t0' t1' p)
      \<and> get_waveforms c' net' sta' ch' t0' t1' = Inr ws' \<and> ws' \<noteq> []"
  then have "retrieve net' sta' t0' t1' (PSF_fallback_order pc) lg' =
      (Some (ws', cn', ch'), lg' @ map (request_of net' sta' t0' t1') (pre' @ [(cn', c', ch')]))"
    using retrieve_first_success [of pre' net' sta' t0' t1' c' ch' ws' cn' post' lg'] by simp
  with a show "PSF_get_waveforms pself net' sta' t0' t1' lg' =
          ((Some ws', ''IRIS-'' @ ch'),
           lg' @ map (request_of net' sta' t0' t1') (pre' @ [(cn', c', ch')]))"
    by (simp add: PSF_get_waveforms_retrieve)
qed

theorem first_success_wins_witness:
  "SDF_get_seismic_waveforms ex_sdf_w ''IU'' ''ANMO'' 0 3600 SDF_default_channels [] =
     ((Some ex_stream, Some ''USGS''),
      [GetWaveforms ''IRIS'' ''IU'' ''ANMO'' ''BHZ'' 0 3600,
       GetWaveforms ''IRIS'' ''IU'' ''ANMO'' ''HHZ'' 0 3600,
       GetWaveforms ''IRIS'' ''IU'' ''ANMO'' ''BHN'' 0 3600,
       GetWaveforms ''IRIS'' ''IU'' ''ANMO'' ''BHE'' 0 3600,
       GetWaveforms ''USGS'' ''IU'' ''ANMO'' ''BHZ'' 0 3600,
       GetWaveforms ''USGS'' ''IU'' ''ANMO'' ''HHZ'' 0 3600])
   \<and> PSF_get_waveforms ex_psf_w ''IU'' ''ANMO'' 0 3600 [] =
     ((Some ex_stream, ''IRIS-LH*''),
      [GetWaveforms ''IRIS'' ''IU'' ''ANMO'' ''BH*'' 0 3600,
       GetWaveforms ''IRIS'' ''IU'' ''ANMO'' ''HH*'' 0 3600,
       GetWaveforms ''IRIS'' ''IU'' ''ANMO'' ''LH*'' 0 3600])"
  using first_success_wins
    [of ex_sdf_w SDF_default_channels
        "[(''IRIS'', ex_client_a, ''BHZ''), (''IRIS'', ex_client_a, ''HHZ''),
          (''IRIS'', ex_client_a, ''BHN''), (''IRIS'', ex_client_a, ''BHE''),
          (''USGS'', ex_client_w, ''BHZ'')]"
        "''USGS''" ex_client_w "''HHZ''"
        "[(''USGS'', ex_client_w, ''BHN''), (''USGS'', ex_client_w, ''BHE'')]"
        "''IU''" "''ANMO''" 0 3600 ex_stream "[]"
        ex_psf_w ex_client_w
        "[(''IRIS'', ex_client_w, ''BH*''), (''IRIS'', ex_client_w, ''HH*'')]"
        "''IRIS''" ex_client_w "''LH*''"
        "[(''IRIS'', ex_client_w, ''BHZ''), (''IRIS'', ex_client_w, ''HHZ'')]"
        "''IU''" "''ANMO''" 0 3600 ex_stream "[]"]
  by (simp add: SDF_fallback_order_def PSF_fallback_order_def ex_sdf_w_def ex_psf_w_def
      PSF_init_def SDF_default_channels_def PSF_channel_sets_def fetch_fails_def
      ex_client_a_def ex_client_w_def no_waveforms_def ex_waveforms_def ex_stream_def
      request_of_def)

text \<open>
  Claim C7. When every fetch of the fallback order fails (raises or returns no
  trace), the function returns a \<^verbatim>\<open>None\<close> waveform after sending every request of
  the order once: \<^verbatim>\<open>(None, None)\<close> from \<^verbatim>\<open>get_seismic_waveforms\<close> and
  \<^verbatim>\<open>(None, "No data found")\<close> from \<^verbatim>\<open>get_waveforms\<close>, which returns
  \<^verbatim>\<open>(None, "No client available")\<close> without a request when it has no client. The
  functions return a value in every case: an exception of a fetch never leaves them.
\<close>

theorem all_fail_returns_None:
  "((\<forall>p \<in> set (SDF_fallback_order self channels). fetch_fails net sta t0 t1 p)
    \<longrightarrow> SDF_get_seismic_waveforms self net sta t0 t1 channels lg =
          ((None, None), lg @ map (request_of net sta t0 t1) (SDF_fallback_order self channels)))
   \<and> (psf_client pself = Some pc
      \<and> (\<forall>p \<in> set (PSF_fallback_order pc). fetch_fails net sta t0 t1 p)
    \<longrightarrow> PSF_get_waveforms pself net sta t0 t1 lg =
          ((None, ''No data found''),
           lg @ map (request_of net sta t0 t1) (PSF_fallback_order pc)))
   \<and> (psf_client pself0 = None
    \<longrightarrow> PSF_get_waveforms pself0 net sta t0 t1 lg = ((None, ''No client available''), lg))"
proof (intro conjI impI)
  assume "\<forall>p \<in> set (SDF_fallback_order self channels). fetch_fails net sta t0 t1 p"
  then show "SDF_get_seismic_waveforms self net sta t0 t1 channels lg =
          ((None, None), lg @ map (request_of net sta t0 t1) (SDF_fallback_order self channels))"
    by (simp add: SDF_get_seismic_waveforms_retrieve retrieve_all_fail)
next
  assume "psf_client pself = Some pc
      \<and> (\<forall>p \<in> set (PSF_fallback_order pc). fetch_fails net sta t0 t1 p)"
  then show "PSF_get_waveforms pself net sta t0 t1 lg =
          ((None, ''No data found''),
           lg @ map (request_of net sta t0 t1) (PSF_fallback_order pc))"
    by (simp add: PSF_get_waveforms_retrieve retrieve_all_fail)
next
  assume "psf_client pself0 = None"
  then show "PSF_get_waveforms pself0 net sta t0 t1 lg = ((None, ''No client available''), lg)"
    by (simp add: PSF_get_waveforms_def)
qed

theorem all_fail_returns_None_witness:
  "SDF_get_seismic_waveforms ex_sdf ''IU'' ''ANMO'' 0 3600 [''BHZ'', ''HHZ''] [] =
     ((None, None),
      [GetWaveforms ''IRIS'' ''IU'' ''ANMO'' ''BHZ'' 0 3600,
       GetWaveforms ''IRIS'' ''IU'' ''ANMO'' ''HHZ'' 0 3600,
       GetWaveforms ''USGS'' ''IU'' ''ANMO'' ''BHZ'' 0 3600,
       GetWaveforms ''USGS'' ''IU'' ''ANMO'' ''HHZ'' 0 3600])
   \<and> PSF_get_waveforms ex_psf_none ''IU'' ''ANMO'' 0 3600 [] =
     ((None, ''No data found''),
      [GetWaveforms ''IRIS'' ''IU'' ''ANMO'' ''BH*'' 0 3600,
       GetWaveforms ''IRIS'' ''IU'' ''ANMO'' ''HH*'' 0 3600,
       GetWaveforms ''IRIS'' ''IU'' ''ANMO'' ''LH*'' 0 3600,
       GetWaveforms ''IRIS'' ''IU'' ''ANMO'' ''BHZ'' 0 3600,
       GetWaveforms ''IRIS'' ''IU'' ''ANMO'' ''HHZ'' 0 3600])
   \<and> PSF_get_waveforms (PSF_init ''seismic_station_data'' None) ''IU'' ''ANMO'' 0 3600 [] =
     ((None, ''No client available''), [])"
  using all_fail_returns_None
    [of ex_sdf "[''BHZ'', ''HHZ'']" "''IU''" "''ANMO''" 0 3600 "[]" ex_psf_none ex_client_a
        "PSF_init ''seismic_station_data'' None"]
  by (simp add: SDF_fallback_order_def PSF_fallback_order_def ex_sdf_def ex_psf_none_def
      PSF_init_def PSF_channel_sets_def fetch_fails_def ex_client_a_def ex_client_b_def
      no_waveforms_def request_of_def)


subsection \<open>EventArchiver and BatchRunner\<close>

text \<open>
  Claim C1. When the date of the row parses and the event directory exists,
  \<^verbatim>\<open>process_earthquake\<close> returns the directory and leaves the world as it was: no
  request is added to the log, so no station is resolved through a client and no
  waveform fetched, and the file system is unchanged.
\<close>

theorem process_earthquake_idempotent:
  "(parse_datetime e (row_date_time r) = Some t
      \<and> path_exists w (event_dir_of e (psf_data_dir pself) 60 r t)
    \<longrightarrow> PSF_process_earthquake e pself r w
          = (Some (event_dir_of e (psf_data_dir pself) 60 r t), w))
   \<and> (parse_datetime e' (row_date_time r') = Some t'
      \<and> path_exists w' (event_dir_of e' (sdf_data_dir self) 100 r' t')
    \<longrightarrow> SDF_process_earthquake e' self r' w'
          = (Some (event_dir_of e' (sdf_data_dir self) 100 r' t'), w'))"
  by (simp add: PSF_process_earthquake_def PSF_process_earthquake_body_def
      SDF_process_earthquake_def SDF_process_earthquake_body_def Let_def)

theorem process_earthquake_idempotent_witness:
  "PSF_process_earthquake ex_env ex_psf_w ex_row
      \<lparr> fs = [event_dir_of ex_env ''seismic_station_data'' 60 ex_row 1675646220 \<mapsto> Dir],
        log = [] \<rparr>
     = (Some (event_dir_of ex_env ''seismic_station_data'' 60 ex_row 1675646220),
        \<lparr> fs = [event_dir_of ex_env ''seismic_station_data'' 60 ex_row 1675646220 \<mapsto> Dir],
          log = [] \<rparr>)
   \<and> SDF_process_earthquake ex_env ex_sdf_w ex_row
      \<lparr> fs = [event_dir_of ex_env ''seismic_station_data'' 100 ex_row 1675646220 \<mapsto> Dir],
        log = [] \<rparr>
     = (Some (event_dir_of ex_env ''seismic_station_data'' 100 ex_row 1675646220),
        \<lparr> fs = [event_dir_of ex_env ''seismic_station_data'' 100 ex_row 1675646220 \<mapsto> Dir],
          log = [] \<rparr>)"
  using process_earthquake_idempotent
    [of ex_env ex_row 1675646220
        "\<lparr> fs = [event_dir_of ex_env ''seismic_station_data'' 60 ex_row 1675646220 \<mapsto> Dir],
           log = [] \<rparr>"
        ex_psf_w ex_env ex_row 1675646220
        "\<lparr> fs = [event_dir_of ex_env ''seismic_station_data'' 100 ex_row 1675646220 \<mapsto> Dir],
           log = [] \<rparr>"
        ex_sdf_w]
  by (simp add: parse_datetime_def ex_env_def ex_row_def path_exists_def ex_psf_w_def
      PSF_init_def ex_sdf_w_def)

lemma PSF_loop_counts:
  "\<exists>s f w'. PSF_process_all_earthquakes_loop e self rows s0 f0 w = ((s, f), w')
     \<and> s + f = s0 + f0 + length rows"
proof (induction rows arbitrary: s0 f0 w)
  case Nil
  show ?case by simp
next
  case (Cons r rows)
  obtain result w1 where p: "PSF_process_earthquake e self r w = (result, w1)"
    by (cases "PSF_process_earthquake e self r w") auto
  show ?case
  proof (cases "truthy result")
    case True
    with p Cons.IH [of "s0 + 1" f0 w1] show ?thesis by auto
  next
    case False
    with p Cons.IH [of s0 "f0 + 1" w1] show ?thesis by auto
  qed
qed

lemma SDF_loop_counts:
  "\<exists>s f w'. SDF_fetch_all_earthquake_data_loop e self rows s0 f0 w = ((s, f), w')
     \<and> s + f = s0 + f0 + length rows"
proof (induction rows arbitrary: s0 f0 w)
  case Nil
  show ?case by simp
next
  case (Cons r rows)
  obtain result w1 where p: "SDF_process_earthquake e self r w = (result, w1)"
    by (cases "SDF_process_earthquake e self r w") auto
  show ?case
  proof (cases "truthy result")
    case True
    with p Cons.IH [of "s0 + 1" f0 w1] show ?thesis by auto
  next
    case False
    with p Cons.IH [of s0 "f0 + 1" w1] show ?thesis by auto
  qed
qed

lemma PSF_loop_foldl:
  "PSF_process_all_earthquakes_loop e self rows s0 f0 w
     = foldl (\<lambda>((successful, failed), w) r.
                case PSF_process_earthquake e self r w of
                  (result, w') \<Rightarrow>
                    if truthy result then ((successful + 1, failed), w')
                    else ((successful, failed + 1), w'))
         ((s0, f0), w) rows"
  by (induction rows arbitrary: s0 f0 w) (simp_all split: prod.splits)

lemma SDF_loop_foldl:
  "SDF_fetch_all_earthquake_data_loop e self rows s0 f0 w
     = foldl (\<lambda>((successful, failed), w) r.
                case SDF_process_earthquake e self r w of
                  (result, w') \<Rightarrow>
                    if truthy result then ((successful + 1, failed), w')
                    else ((successful, failed + 1), w'))
         ((s0, f0), w) rows"
  by (induction rows arbitrary: s0 f0 w) (simp_all split: prod.splits)

text \<open>
  Claim C10. The loop of the batch is the fold, over all the rows in their order, of
  the step that calls \<^verbatim>\<open>process_earthquake\<close> on the row in the world left by the
  rows before it and adds one to the counter of its outcome. An exception that
  leaves the body of \<^verbatim>\<open>process_earthquake\<close> is turned into the result \<^verbatim>\<open>None\<close>;
  the loop then counts the event as failed and goes on with the remaining rows, and
  after any list of rows the two counters have grown by the number of rows together:
  every row was processed.
\<close>

theorem event_failure_absorbed:
  "PSF_process_all_earthquakes_loop e pself rows s0 f0 w
     = foldl (\<lambda>((successful, failed), w) r.
                case PSF_process_earthquake e pself r w of
                  (result, w') \<Rightarrow>
                    if truthy result then ((successful + 1, failed), w')
                    else ((successful, failed + 1), w'))
         ((s0, f0), w) rows
   \<and> SDF_fetch_all_earthquake_data_loop e' self rows' s0' f0' w'
     = foldl (\<lambda>((successful, failed), w) r.
                case SDF_process_earthquake e' self r w of
                  (result, w') \<Rightarrow>
                    if truthy result then ((successful + 1, failed), w')
                    else ((successful, failed + 1), w'))
         ((s0', f0'), w') rows'
   \<and> (PSF_process_earthquake_body e pself r w = (Inl ex, w1)
    \<longrightarrow> PSF_process_earthquake e pself r w = (None, w1)
        \<and> PSF_process_all_earthquakes_loop e pself (r # rows) s0 f0 w
            = PSF_process_all_earthquakes_loop e pself rows s0 (f0 + 1) w1)
   \<and> (SDF_process_earthquake_body e' self r' w' = (Inl ex', w1')
    \<longrightarrow> SDF_process_earthquake e' self r' w' = (None, w1')
        \<and> SDF_fetch_all_earthquake_data_loop e' self (r' # rows') s0' f0' w'
            = SDF_fetch_all_earthquake_data_loop e' self rows' s0' (f0' + 1) w1')
   \<and> (\<exists>s f w2. PSF_process_all_earthquakes_loop e pself rows s0 f0 w = ((s, f), w2)
         \<and> s + f = s0 + f0 + length rows)
   \<and> (\<exists>s f w2. SDF_fetch_all_earthquake_data_loop e' self rows' s0' f0' w' = ((s, f), w2)
         \<and> s + f = s0' + f0' + length rows')"
proof -
  have 1: "PSF_process_earthquake_body e pself r w = (Inl ex, w1)
    \<longrightarrow> PSF_process_earthquake e pself r w = (None, w1)
        \<and> PSF_process_all_earthquakes_loop e pself (r # rows) s0 f0 w
            = PSF_process_all_earthquakes_loop e pself rows s0 (f0 + 1) w1"
    by (simp add: PSF_process_earthquake_def truthy_def)
  have 2: "SDF_process_earthquake_body e' self r' w' = (Inl ex', w1')
    \<longrightarrow> SDF_process_earthquake e' self r' w' = (None, w1')
        \<and> SDF_fetch_all_earthquake_data_loop e' self (r' # rows') s0' f0' w'
            = SDF_fetch_all_earthquake_data_loop e' self rows' s0' (f0' + 1) w1'"
    by (simp add: SDF_process_earthquake_def truthy_def)
  from PSF_loop_foldl [of e pself rows s0 f0 w] SDF_loop_foldl [of e' self rows' s0' f0' w']
    1 2 PSF_loop_counts [of e pself rows s0 f0 w] SDF_loop_counts [of e' self rows' s0' f0' w']
  show ?thesis by (intro conjI)
qed

theorem event_failure_absorbed_witness:
  "PSF_process_earthquake ex_env_readonly ex_psf_w ex_row ex_world = (None, ex_world)
   \<and> PSF_process_all_earthquakes_loop ex_env_readonly ex_psf_w [ex_row, ex_row] 0 0 ex_world
       = PSF_process_all_earthquakes_loop ex_env_readonly ex_psf_w [ex_row] 0 (0 + 1) ex_world
   \<and> SDF_process_earthquake ex_env_readonly ex_sdf_w ex_row ex_world = (None, ex_world)
   \<and> SDF_fetch_all_earthquake_data_loop ex_env_readonly ex_sdf_w [ex_row, ex_row] 0 0 ex_world
       = SDF_fetch_all_earthquake_data_loop ex_env_readonly ex_sdf_w [ex_row] 0 (0 + 1) ex_world"
proof -
  have a: "PSF_process_earthquake_body ex_env_readonly ex_psf_w ex_row ex_world
             = (Inl OSError, ex_world)"
    by (simp add: PSF_process_earthquake_body_def parse_datetime_def ex_env_readonly_def
        ex_env_def ex_row_def path_exists_def ex_world_def makedirs_def Let_def)
  have b: "SDF_process_earthquake_body ex_env_readonly ex_sdf_w ex_row ex_world
             = (Inl OSError, ex_world)"
    by (simp add: SDF_process_earthquake_body_def parse_datetime_def ex_env_readonly_def
        ex_env_def ex_row_def path_exists_def ex_world_def makedirs_def Let_def)
  from a b event_failure_absorbed
    [where e = ex_env_readonly and pself = ex_psf_w and r = ex_row and w = ex_world
       and ex = OSError and ?w1.0 = ex_world and rows = "[ex_row]" and ?s0.0 = 0 and ?f0.0 = 0
       and e' = ex_env_readonly and self = ex_sdf_w and r' = ex_row and w' = ex_world
       and ex' = OSError and w1' = ex_world and rows' = "[ex_row]" and s0' = 0 and f0' = 0]
  show ?thesis by blast
qed


subsection \<open>The radius of the resolver\<close>

text \<open>A bound on \<open>pi\<close> from Machin's formula and the alternating series of the arc tangent.\<close>

lemma arctan_series_bounds:
  fixes x :: real
  assumes "0 < x" and "x \<le> 1"
  shows "x - x ^ 3 / 3 \<le> arctan x" and "arctan x \<le> x - x ^ 3 / 3 + x ^ 5 / 5"
proof -
  define a where "a = (\<lambda>n. 1 / real (n * 2 + 1) * x ^ (n * 2 + 1))"
  have ax: "\<bar>x\<bar> \<le> 1" using assms by simp
  have z: "a \<longlonglongrightarrow> 0" unfolding a_def by (rule zeroseq_arctan_series [OF ax])
  have m: "monoseq a" unfolding a_def by (rule monoseq_arctan_series [OF ax])
  have a0: "0 < a 0" using assms by (simp add: a_def)
  have s: "arctan x = (\<Sum>i. (- 1) ^ i * a i)"
    unfolding a_def by (rule arctan_series [OF ax])
  from summable_Leibniz(2) [OF z m] a0
  have b: "(\<Sum>i. (- 1) ^ i * a i) \<in> {\<Sum>i<2 * 1. (- 1) ^ i * a i .. \<Sum>i<2 * 1 + 1. (- 1) ^ i * a i}"
    by blast
  have l: "(\<Sum>i<2 * 1. (- 1) ^ i * a i) = x - x ^ 3 / 3"
    by (simp add: a_def eval_nat_numeral)
  have u: "(\<Sum>i<2 * 1 + 1. (- 1) ^ i * a i) = x - x ^ 3 / 3 + x ^ 5 / 5"
    by (simp add: a_def eval_nat_numeral)
  from b show "x - x ^ 3 / 3 \<le> arctan x" unfolding s l by simp
  from b show "arctan x \<le> x - x ^ 3 / 3 + x ^ 5 / 5" unfolding s u by simp
qed













lemma ex_psf_two_result:
  "PSF_get_nearest_stations ex_psf_two 0 0 4000 3 = Inr [ex_sumg]"
proof -
  have "(2::real) \<le> pi" by (rule pi_ge_two)
  moreover have "pi < 4" by (rule pi_less_4)
  ultimately show ?thesis
    by (simp add: PSF_get_nearest_stations_def ex_psf_two_def calculate_distance_same_lon
        ex_sumg_def py_slice_to_def)
qed


subsection \<open>Lower bounds on the distance\<close>

lemma pi_lower: "3.14 \<le> pi"
proof -
  define U :: real where "U = (1 / 239) - (1 / 239) ^ 3 / 3 + (1 / 239) ^ 5 / 5"
  define L :: real where "L = (1 / 5) - (1 / 5) ^ 3 / 3"
  have 1: "arctan (1 / 239) \<le> U"
    unfolding U_def by (rule arctan_series_bounds(2)) simp_all
  have 2: "L \<le> arctan (1 / 5)"
    unfolding L_def by (rule arctan_series_bounds(1)) simp_all
  have "3.14 \<le> 16 * L - 4 * U" by (simp add: U_def L_def power_divide)
  also have "\<dots> \<le> 16 * arctan (1 / 5) - 4 * arctan (1 / 239)"
    using 1 2 by linarith
  also have "\<dots> = pi" using machin by simp
  finally show ?thesis .
qed

lemma arcsin_ge_self:
  assumes "0 \<le> y" and "y \<le> 1"
  shows "y \<le> arcsin y"
proof -
  have "0 \<le> arcsin y" using assms by (intro arcsin_nonneg) auto
  then have "sin (arcsin y) \<le> arcsin y" by (rule sin_x_le_x)
  moreover have "sin (arcsin y) = y" using assms by (intro sin_arcsin) auto
  ultimately show ?thesis by simp
qed

text \<open>The cosines of two latitudes have a product that is not negative.\<close>

lemma cos_radians_nonneg:
  assumes "\<bar>lat\<bar> \<le> 90"
  shows "0 \<le> cos (radians lat)"
proof -
  have "\<bar>radians lat\<bar> = \<bar>lat\<bar> * (pi / 180)"
    by (simp add: radians_def abs_mult)
  also have "\<dots> \<le> 90 * (pi / 180)"
    using assms by (intro mult_right_mono) simp_all
  finally have "\<bar>radians lat\<bar> \<le> pi / 2" by simp
  then show ?thesis by (intro cos_ge_zero) (simp_all add: abs_le_iff)
qed

text \<open>A great-circle distance is at least the arc between the two parallels.\<close>

lemma distance_km_of_ge_meridian_arc:
  assumes "\<bar>lat1\<bar> \<le> 90" and "\<bar>lat2\<bar> \<le> 90"
  shows "\<bar>lat2 - lat1\<bar> * pi / 180 * 6371 \<le> distance_km_of lat1 lon1 lat2 lon2"
proof -
  define x where "x = (radians lat2 - radians lat1) / 2"
  define a where "a = haversine_a (radians lat1) (radians lon1) (radians lat2) (radians lon2)"
  have xa: "\<bar>x\<bar> = \<bar>lat2 - lat1\<bar> * pi / 360"
  proof -
    have "x = (lat2 - lat1) * (pi / 360)"
      unfolding x_def radians_def by (simp add: field_simps)
    then have "\<bar>x\<bar> = \<bar>lat2 - lat1\<bar> * \<bar>pi / 360\<bar>" by (simp only: abs_mult)
    then show ?thesis by simp
  qed
  have "\<bar>lat2 - lat1\<bar> \<le> 180" using assms by linarith
  then have xb: "\<bar>x\<bar> \<le> pi / 2" unfolding xa using pi_gt_zero by (simp add: field_simps)
  have a01: "0 \<le> a" "a \<le> 1"
    unfolding a_def by (rule haversine_a_nonneg, rule haversine_a_le_one)
  have "0 \<le> cos (radians lat1) * cos (radians lat2) * (sin ((radians lon2 - radians lon1) / 2))\<^sup>2"
    using cos_radians_nonneg [OF assms(1)] cos_radians_nonneg [OF assms(2)] by simp
  then have "(sin x)\<^sup>2 \<le> a" by (simp add: a_def haversine_a_def x_def)
  then have "sqrt ((sin x)\<^sup>2) \<le> sqrt a" by (rule real_sqrt_le_mono)
  moreover have "sqrt ((sin x)\<^sup>2) = sin \<bar>x\<bar>"
  proof -
    have "0 \<le> sin \<bar>x\<bar>" using xb pi_gt_zero by (intro sin_ge_zero) auto
    moreover have "\<bar>sin x\<bar> = \<bar>sin \<bar>x\<bar>\<bar>" by (cases "0 \<le> x") (simp_all add: abs_if)
    ultimately show ?thesis by simp
  qed
  ultimately have s: "sin \<bar>x\<bar> \<le> sqrt a" by (simp only:)
  have s1: "sqrt a \<le> 1" using a01 by simp
  have "- 1 \<le> sin \<bar>x\<bar>" by simp
  then have "arcsin (sin \<bar>x\<bar>) \<le> arcsin (sqrt a)" using s s1 by (rule arcsin_le_arcsin)
  moreover have "arcsin (sin \<bar>x\<bar>) = \<bar>x\<bar>" using xb by (intro arcsin_sin) auto
  ultimately have "\<bar>x\<bar> \<le> arcsin (sqrt a)" by simp
  then show ?thesis unfolding distance_km_of_def a_def[symmetric] xa by (simp add: field_simps)
qed

text \<open>Two points between the parallels of 45 degrees, 60 to 300 degrees of longitude apart.\<close>

lemma cos_le_half:
  assumes "pi / 3 \<le> \<bar>x\<bar>" and "\<bar>x\<bar> \<le> 5 * pi / 3"
  shows "cos x \<le> 1 / 2"
proof -
  have c: "cos x = cos \<bar>x\<bar>" by (simp add: abs_if)
  have z: "0 \<le> pi / 3" by simp
  show ?thesis
  proof (cases "\<bar>x\<bar> \<le> pi")
    case True
    have "cos \<bar>x\<bar> \<le> cos (pi / 3)"
      by (rule cos_monotone_0_pi_le [OF z assms(1) True])
    then show ?thesis by (simp only: c cos_60)
  next
    case False
    have 1: "pi / 3 \<le> 2 * pi - \<bar>x\<bar>" using assms(2) by linarith
    have 2: "2 * pi - \<bar>x\<bar> \<le> pi" using False by linarith
    have "cos (2 * pi - \<bar>x\<bar>) \<le> cos (pi / 3)"
      by (rule cos_monotone_0_pi_le [OF z 1 2])
    then show ?thesis by (simp only: c cos_60 cos_2pi_minus)
  qed
qed

lemma cos_radians_ge:
  assumes "\<bar>lat\<bar> \<le> 45"
  shows "sqrt 2 / 2 \<le> cos (radians lat)"
proof -
  have "\<bar>radians lat\<bar> = \<bar>lat\<bar> * (pi / 180)"
    by (simp add: radians_def abs_mult)
  also have "\<dots> \<le> 45 * (pi / 180)"
    using assms by (intro mult_right_mono) simp_all
  finally have b: "\<bar>radians lat\<bar> \<le> pi / 4" by simp
  have "cos (pi / 4) \<le> cos \<bar>radians lat\<bar>"
    using b pi_gt_zero by (intro cos_monotone_0_pi_le) simp_all
  moreover have "cos \<bar>radians lat\<bar> = cos (radians lat)" by (simp add: abs_if)
  ultimately show ?thesis by (simp add: cos_45)
qed

lemma distance_km_of_far_longitude:
  assumes "\<bar>lat1\<bar> \<le> 45" and "\<bar>lat2\<bar> \<le> 45"
    and "60 \<le> \<bar>lon2 - lon1\<bar>" and "\<bar>lon2 - lon1\<bar> \<le> 300"
  shows "4000 < distance_km_of lat1 lon1 lat2 lon2"
proof -
  define y where "y = radians lon2 - radians lon1"
  define a where "a = haversine_a (radians lat1) (radians lon1) (radians lat2) (radians lon2)"
  have ya: "\<bar>y\<bar> = \<bar>lon2 - lon1\<bar> * (pi / 180)"
  proof -
    have "y = (lon2 - lon1) * (pi / 180)"
      unfolding y_def radians_def by (simp add: field_simps)
    then have "\<bar>y\<bar> = \<bar>lon2 - lon1\<bar> * \<bar>pi / 180\<bar>" by (simp only: abs_mult)
    then show ?thesis by simp
  qed
  have "60 * (pi / 180) \<le> \<bar>y\<bar>" unfolding ya using assms(3) by (intro mult_right_mono) simp_all
  moreover have "\<bar>y\<bar> \<le> 300 * (pi / 180)" unfolding ya using assms(4) by (intro mult_right_mono) simp_all
  ultimately have "cos y \<le> 1 / 2" by (intro cos_le_half) simp_all
  then have sy: "1 / 4 \<le> (sin (y / 2))\<^sup>2" by (simp add: sin_half_squared)
  have c1: "sqrt 2 / 2 \<le> cos (radians lat1)" using assms(1) by (rule cos_radians_ge)
  have c2: "sqrt 2 / 2 \<le> cos (radians lat2)" using assms(2) by (rule cos_radians_ge)
  have p: "0 \<le> sqrt 2 / 2" by simp
  have p1: "0 \<le> cos (radians lat1)" using c1 p by linarith
  have "(sqrt 2 / 2) * (sqrt 2 / 2) \<le> cos (radians lat1) * cos (radians lat2)"
    using c1 c2 p1 p by (rule mult_mono)
  then have cc: "1 / 2 \<le> cos (radians lat1) * cos (radians lat2)" by simp
  have q1: "0 \<le> cos (radians lat1) * cos (radians lat2)" using cc by linarith
  have q2: "(0::real) \<le> 1 / 4" by simp
  have "(1 / 2) * (1 / 4) \<le> cos (radians lat1) * cos (radians lat2) * (sin (y / 2))\<^sup>2"
    using cc sy q1 q2 by (rule mult_mono)
  moreover have "0 \<le> (sin ((radians lat2 - radians lat1) / 2))\<^sup>2" by simp
  ultimately have a8: "1 / 8 \<le> a"
    unfolding a_def haversine_a_def Let_def y_def by linarith
  have a01: "0 \<le> a" "a \<le> 1"
    unfolding a_def by (rule haversine_a_nonneg, rule haversine_a_le_one)
  have "(1 / 3)\<^sup>2 \<le> a" using a8 by (simp add: power2_eq_square)
  then have "sqrt ((1 / 3)\<^sup>2) \<le> sqrt a" by (rule real_sqrt_le_mono)
  then have "1 / 3 \<le> sqrt a" by simp
  moreover have "sqrt a \<le> arcsin (sqrt a)"
    using a01 by (intro arcsin_ge_self) simp_all
  ultimately have "1 / 3 \<le> arcsin (sqrt a)" by simp
  then show ?thesis unfolding distance_km_of_def a_def[symmetric] by simp
qed

lemma distance_km_of_far_latitude:
  assumes "\<bar>lat1\<bar> \<le> 90" and "\<bar>lat2\<bar> \<le> 90" and "km * 180 < \<bar>lat2 - lat1\<bar> * 3.14 * 6371"
  shows "km < distance_km_of lat1 lon1 lat2 lon2"
proof -
  have "\<bar>lat2 - lat1\<bar> * 3.14 \<le> \<bar>lat2 - lat1\<bar> * pi"
    using pi_lower by (intro mult_left_mono) simp_all
  then have "km * 180 < \<bar>lat2 - lat1\<bar> * pi * 6371" using assms(3) by simp
  then have "km < \<bar>lat2 - lat1\<bar> * pi / 180 * 6371" by simp
  with distance_km_of_ge_meridian_arc [OF assms(1,2), of lon1 lon2] show ?thesis by simp
qed

text \<open>No station of either built-in list is near the event in Angola.\<close>

lemma not_within_far_latitude:
  "\<bar>lat1\<bar> \<le> 90 \<Longrightarrow> \<bar>lat2\<bar> \<le> 90 \<Longrightarrow> km * 180 < \<bar>lat2 - lat1\<bar> * 3.14 * 6371 \<Longrightarrow>
     (distance_km_of lat1 lon1 lat2 lon2 \<le> km) = False"
  using distance_km_of_far_latitude [of lat1 lat2 km lon1 lon2] by simp

lemma not_within_far_longitude:
  "\<bar>lat1\<bar> \<le> 45 \<Longrightarrow> \<bar>lat2\<bar> \<le> 45 \<Longrightarrow> 60 \<le> \<bar>lon2 - lon1\<bar> \<Longrightarrow> \<bar>lon2 - lon1\<bar> \<le> 300 \<Longrightarrow>
     (distance_km_of lat1 lon1 lat2 lon2 \<le> 4000) = False"
  using distance_km_of_far_longitude [of lat1 lat2 lon2 lon1] by simp

lemma PSF_init_angola:
  "PSF_get_nearest_stations (PSF_init dir c) (- 15) 15 4000 3 = Inr []"
  by (simp add: PSF_get_nearest_stations_eq PSF_init_def PSF_init_global_stations_def
      not_within_far_latitude not_within_far_longitude py_slice_to_def)

lemma SDF_fallback_angola:
  "SDF_get_fallback_stations (- 15) 15 500 = Inr []"
  by (simp add: SDF_get_fallback_stations_def SDF_scan_fallback_eq SDF_global_stations_def
      not_within_far_latitude)

lemma ex_sdf_silent_angola:
  "SDF_get_nearest_stations ex_sdf_silent (- 15) 15 500 5 = Inr []"
  by (simp add: SDF_get_nearest_stations_def SDF_all_stations_def ex_sdf_silent_def
      ex_client_silent_def SDF_fallback_angola py_slice_to_def)

subsection \<open>The metadata of an event\<close>

lemma path_join_neq_self:
  "b \<noteq> [] \<Longrightarrow> hd b \<noteq> CHR ''/'' \<Longrightarrow> path_join a b \<noteq> a"
  by (simp add: path_join_def)

lemma path_join_inject:
  "b \<noteq> [] \<Longrightarrow> hd b \<noteq> CHR ''/'' \<Longrightarrow> c \<noteq> [] \<Longrightarrow> hd c \<noteq> CHR ''/'' \<Longrightarrow>
     (path_join a b = path_join a c) = (b = c)"
  by (simp add: path_join_def)

lemma event_paths_distinct:
  "metadata_file d \<noteq> d"
  "path_join d ''before_event'' \<noteq> d"
  "path_join d ''after_event'' \<noteq> d"
  "metadata_file d \<noteq> path_join d ''before_event''"
  "metadata_file d \<noteq> path_join d ''after_event''"
  "path_join d ''after_event'' \<noteq> path_join d ''before_event''"
  by (simp_all add: metadata_file_def path_join_neq_self path_join_inject)

lemma no_new_dirs_refl: "no_new_dirs w w q"
  by (simp add: no_new_dirs_def)

lemma no_new_dirs_trans: "no_new_dirs w w' q \<Longrightarrow> no_new_dirs w' w'' q \<Longrightarrow> no_new_dirs w w'' q"
  by (auto simp: no_new_dirs_def)

lemma no_new_dirs_log: "no_new_dirs w (w\<lparr>log := lg\<rparr>) q"
  by (simp add: no_new_dirs_def)

lemma save_waveform_data_no_new_dirs:
  "no_new_dirs w (snd (save_waveform_data e wfm p w)) q"
  by (auto simp: save_waveform_data_def write_file_def no_new_dirs_def
      split: option.splits sum.splits if_splits)

lemma save_waveform_data_after_log:
  "save_waveform_data e wfm p (w\<lparr>log := lg\<rparr>) = (b, w1) \<Longrightarrow> no_new_dirs w w1 q"
  by (auto simp: save_waveform_data_def write_file_def no_new_dirs_def
      split: option.splits sum.splits if_splits)

lemma SDF_process_stations_result:
  "no_new_dirs w (snd (SDF_process_stations e self bd ad p ss acc w)) q
   \<and> map si_station (fst (SDF_process_stations e self bd ad p ss acc w))
       = map si_station acc @ ss"
proof (induction ss arbitrary: acc w)
  case Nil
  show ?case by (simp add: no_new_dirs_refl)
next
  case (Cons s ss)
  obtain bw bc lg1 where g1: "SDF_get_seismic_waveforms self (network s) (station s)
      (before_start p) (before_end p) SDF_default_channels (log w) = ((bw, bc), lg1)"
    by (metis surj_pair)
  obtain bo w1 where s1: "save_waveform_data e bw
      (waveform_file bd (network s) (station s) ''before'') (w\<lparr>log := lg1\<rparr>) = (bo, w1)"
    by (metis surj_pair)
  obtain aw ac lg2 where g2: "SDF_get_seismic_waveforms self (network s) (station s)
      (after_start p) (after_end p) SDF_default_channels (log w1) = ((aw, ac), lg2)"
    by (metis surj_pair)
  obtain ao w2 where s2: "save_waveform_data e aw
      (waveform_file ad (network s) (station s) ''after'') (w1\<lparr>log := lg2\<rparr>) = (ao, w2)"
    by (metis surj_pair)
  have step: "SDF_process_stations e self bd ad p (s # ss) acc w =
      SDF_process_stations e self bd ad p ss
        (acc @ [\<lparr> si_station = s, si_before = bo, si_after = ao \<rparr>]) w2"
    by (simp add: g1 s1 g2 s2)
  have n1: "no_new_dirs w w1 q" using s1 by (rule save_waveform_data_after_log)
  have n2: "no_new_dirs w1 w2 q" using s2 by (rule save_waveform_data_after_log)
  have n: "no_new_dirs w w2 q" using n1 n2 by (rule no_new_dirs_trans)
  from Cons.IH [where acc = "acc @ [\<lparr> si_station = s, si_before = bo, si_after = ao \<rparr>]"
      and w = w2] n
  show ?case unfolding step by (auto intro: no_new_dirs_trans)
qed

lemma PSF_process_stations_result:
  assumes "list_all (\<lambda>s. name s \<noteq> None) ss"
  shows "\<exists>res k w'. PSF_process_stations e self bd ad p ss acc n w = (Inr (res, k), w')
     \<and> no_new_dirs w w' q \<and> map si_station res = map si_station acc @ ss"
  using assms
proof (induction ss arbitrary: acc n w)
  case Nil
  show ?case by (simp add: no_new_dirs_refl)
next
  case (Cons s ss)
  from Cons.prems obtain nm where nm: "name s = Some nm"
    and rest: "list_all (\<lambda>s. name s \<noteq> None) ss" by auto
  obtain bw bm lg1 where g1: "PSF_get_waveforms self (network s) (station s)
      (before_start p) (before_end p) (log w) = ((bw, bm), lg1)"
    by (metis surj_pair)
  obtain bo w1 where s1: "save_waveform_data e bw
      (waveform_file bd (network s) (station s) ''before'') (w\<lparr>log := lg1\<rparr>) = (bo, w1)"
    by (metis surj_pair)
  obtain aw am lg2 where g2: "PSF_get_waveforms self (network s) (station s)
      (after_start p) (after_end p) (log w1) = ((aw, am), lg2)"
    by (metis surj_pair)
  obtain ao w2 where s2: "save_waveform_data e aw
      (waveform_file ad (network s) (station s) ''after'') (w1\<lparr>log := lg2\<rparr>) = (ao, w2)"
    by (metis surj_pair)
  have step: "PSF_process_stations e self bd ad p (s # ss) acc n w =
      PSF_process_stations e self bd ad p ss
        (acc @ [\<lparr> si_station = s, si_before = bo, si_after = ao \<rparr>])
        (n + (if bo then 1 else 0) + (if ao then 1 else 0)) w2"
    by (simp add: nm g1 s1 g2 s2)
  have n1: "no_new_dirs w w1 q" using s1 by (rule save_waveform_data_after_log)
  have n2: "no_new_dirs w1 w2 q" using s2 by (rule save_waveform_data_after_log)
  have n12: "no_new_dirs w w2 q" using n1 n2 by (rule no_new_dirs_trans)
  from Cons.IH [OF rest, where acc = "acc @ [\<lparr> si_station = s, si_before = bo, si_after = ao \<rparr>]"
      and n = "n + (if bo then 1 else 0) + (if ao then 1 else 0)" and w = w2]
  obtain res k w' where r: "PSF_process_stations e self bd ad p ss
        (acc @ [\<lparr> si_station = s, si_before = bo, si_after = ao \<rparr>])
        (n + (if bo then 1 else 0) + (if ao then 1 else 0)) w2 = (Inr (res, k), w')"
    and nn: "no_new_dirs w2 w' q"
    and m: "map si_station res = map si_station (acc @ [\<lparr> si_station = s, si_before = bo, si_after = ao \<rparr>]) @ ss"
    by blast
  have "no_new_dirs w w' q" using n12 nn by (rule no_new_dirs_trans)
  with r m show ?case unfolding step by simp
qed

lemma name_station_copy: "name (station_copy s d) = name s"
  by (simp add: station_copy_def)

lemma PSF_get_nearest_stations_names:
  assumes "list_all (\<lambda>s. name s \<noteq> None) (psf_global_stations self)"
    and "PSF_get_nearest_stations self lat lon r m = Inr res"
  shows "list_all (\<lambda>s. name s \<noteq> None) res"
proof -
  let ?near = "map (\<lambda>s. station_copy s (distance_km_of lat lon (latitude s) (longitude s)))
          (filter (\<lambda>s. distance_km_of lat lon (latitude s) (longitude s) \<le> r)
             (psf_global_stations self))"
  from assms(2) have res: "res = py_slice_to m (sort_key distance_km ?near)"
    by (simp add: PSF_get_nearest_stations_eq)
  have "\<forall>s \<in> set ?near. name s \<noteq> None"
    using assms(1) by (auto simp: list_all_iff name_station_copy)
  moreover have "set res \<subseteq> set ?near"
    unfolding res using set_py_slice_to [of m "sort_key distance_km ?near"] by simp
  ultimately show ?thesis by (auto simp: list_all_iff)
qed

lemma PSF_init_names: "list_all (\<lambda>s. name s \<noteq> None) (psf_global_stations (PSF_init dir c))"
  by (simp add: PSF_init_def PSF_init_global_stations_def)

lemma no_new_dirs_None: "no_new_dirs w w' q \<Longrightarrow> fs w q = None \<Longrightarrow> fs w' q \<noteq> Some Dir"
  by (auto simp: no_new_dirs_def)

lemma SDF_process_earthquake_metadata:
  assumes t: "parse_datetime e (row_date_time r) = Some t"
    and fresh: "writable_fresh e w (event_dir_of e (sdf_data_dir self) 100 r t)"
  shows "\<exists>stations station_data w'.
      SDF_get_nearest_stations self (row_latitude r) (row_longitude r) 500 5 = Inr stations
      \<and> SDF_process_earthquake e self r w
          = (Some (event_dir_of e (sdf_data_dir self) 100 r t), w')
      \<and> map si_station station_data = py_slice_to 3 stations
      \<and> fs w' (metadata_file (event_dir_of e (sdf_data_dir self) 100 r t))
          = Some (JsonFile
               \<lparr> md_event_info = r, md_datetime = t, md_stations = station_data,
                 md_data_periods = SDF_data_periods t, md_successful_retrievals = None,
                 md_status = (if stations = [] then ''no_stations_found''
                              else ''completed'') \<rparr>)"
proof -
  define d where "d = event_dir_of e (sdf_data_dir self) 100 r t"
  define bd where "bd = path_join d ''before_event''"
  define ad where "ad = path_join d ''after_event''"
  define mf where "mf = metadata_file d"
  define w1 where "w1 = w\<lparr>fs := (fs w)(d \<mapsto> Dir)\<rparr>"
  define w2 where "w2 = w1\<lparr>log := log w1 @
      SDF_station_calls self (row_latitude r) (row_longitude r) 500\<rparr>"
  define w3 where "w3 = w2\<lparr>fs := (fs w2)(bd \<mapsto> Dir)\<rparr>"
  define w4 where "w4 = w3\<lparr>fs := (fs w3)(ad \<mapsto> Dir)\<rparr>"
  from fresh have ne: "\<not> path_exists w d" and fd: "fs w d = None" and fbd: "fs w bd = None"
    and fad: "fs w ad = None" and fmf: "fs w mf = None"
    and cd: "can_write e d" and cbd: "can_write e bd" and cad: "can_write e ad"
    and cmf: "can_write e mf"
    by (simp_all add: writable_fresh_def d_def bd_def ad_def mf_def path_exists_def)
  have neq: "mf \<noteq> d" "bd \<noteq> d" "ad \<noteq> d" "mf \<noteq> bd" "mf \<noteq> ad" "ad \<noteq> bd"
    unfolding mf_def bd_def ad_def by (rule event_paths_distinct)+
  obtain pool where "SDF_all_stations self (row_latitude r) (row_longitude r) 500 = Inr pool"
    using SDF_all_stations_Inr by blast
  then obtain stations where
    st: "SDF_get_nearest_stations self (row_latitude r) (row_longitude r) 500 5 = Inr stations"
    by (simp add: SDF_get_nearest_stations_eq)
  have m1: "makedirs e d w = Inr w1" using cd fd by (simp add: makedirs_def w1_def)
  have f2: "fs w2 mf = None" "fs w2 bd = None" "fs w2 ad = None"
    using fmf fbd fad neq by (simp_all add: w2_def w1_def)
  show ?thesis
  proof (cases "stations = []")
    case True
    define md where "md = JsonFile
               \<lparr> md_event_info = r, md_datetime = t, md_stations = [],
                 md_data_periods = SDF_data_periods t, md_successful_retrievals = None,
                 md_status = ''no_stations_found'' \<rparr>"
    have wr: "write_file e mf md w2 = Inr (w2\<lparr>fs := (fs w2)(mf \<mapsto> md)\<rparr>)"
      using cmf f2(1) by (simp add: write_file_def)
    have "SDF_process_earthquake e self r w = (Some d, w2\<lparr>fs := (fs w2)(mf \<mapsto> md)\<rparr>)"
      using t ne m1 st True wr
      by (simp add: SDF_process_earthquake_def SDF_process_earthquake_body_def Let_def
          d_def [symmetric] mf_def [symmetric] w2_def [symmetric] md_def [symmetric])
    moreover have "map si_station [] = py_slice_to 3 stations"
      using True by (simp add: py_slice_to_def)
    ultimately have "SDF_get_nearest_stations self (row_latitude r) (row_longitude r) 500 5
          = Inr stations
      \<and> SDF_process_earthquake e self r w = (Some d, w2\<lparr>fs := (fs w2)(mf \<mapsto> md)\<rparr>)
      \<and> map si_station [] = py_slice_to 3 stations
      \<and> fs (w2\<lparr>fs := (fs w2)(mf \<mapsto> md)\<rparr>) mf
          = Some (JsonFile
               \<lparr> md_event_info = r, md_datetime = t, md_stations = [],
                 md_data_periods = SDF_data_periods t, md_successful_retrievals = None,
                 md_status = (if stations = [] then ''no_stations_found''
                              else ''completed'') \<rparr>)"
      using st True by (simp add: md_def)
    then show ?thesis unfolding d_def [symmetric] mf_def [symmetric] by blast
  next
    case False
    have m3: "makedirs e bd w2 = Inr w3" using cbd f2(2) by (simp add: makedirs_def w3_def)
    have "fs w3 ad = None" using f2(3) neq by (simp add: w3_def)
    then have m4: "makedirs e ad w3 = Inr w4" using cad by (simp add: makedirs_def w4_def)
    have f4: "fs w4 mf = None" using f2(1) neq by (simp add: w4_def w3_def)
    obtain sd w5 where ps: "SDF_process_stations e self bd ad (SDF_data_periods t)
        (py_slice_to 3 stations) [] w4 = (sd, w5)"
      by (metis surj_pair)
    from SDF_process_stations_result
      [of w4 e self bd ad "SDF_data_periods t" "py_slice_to 3 stations" "[]" mf]
    have nn: "no_new_dirs w4 w5 mf" and ms: "map si_station sd = py_slice_to 3 stations"
      by (simp_all add: ps)
    from nn f4 have f5: "fs w5 mf \<noteq> Some Dir" by (rule no_new_dirs_None)
    define md where "md = JsonFile
               \<lparr> md_event_info = r, md_datetime = t, md_stations = sd,
                 md_data_periods = SDF_data_periods t, md_successful_retrievals = None,
                 md_status = ''completed'' \<rparr>"
    have wr: "write_file e mf md w5 = Inr (w5\<lparr>fs := (fs w5)(mf \<mapsto> md)\<rparr>)"
      using cmf f5 by (simp add: write_file_def)
    have "SDF_process_earthquake e self r w = (Some d, w5\<lparr>fs := (fs w5)(mf \<mapsto> md)\<rparr>)"
      using t ne m1 st False m3 m4 ps wr
      by (simp add: SDF_process_earthquake_def SDF_process_earthquake_body_def Let_def
          d_def [symmetric] mf_def [symmetric] w2_def [symmetric] md_def [symmetric]
          bd_def [symmetric] ad_def [symmetric])
    then have "SDF_get_nearest_stations self (row_latitude r) (row_longitude r) 500 5
          = Inr stations
      \<and> SDF_process_earthquake e self r w = (Some d, w5\<lparr>fs := (fs w5)(mf \<mapsto> md)\<rparr>)
      \<and> map si_station sd = py_slice_to 3 stations
      \<and> fs (w5\<lparr>fs := (fs w5)(mf \<mapsto> md)\<rparr>) mf
          = Some (JsonFile
               \<lparr> md_event_info = r, md_datetime = t, md_stations = sd,
                 md_data_periods = SDF_data_periods t, md_successful_retrievals = None,
                 md_status = (if stations = [] then ''no_stations_found''
                              else ''completed'') \<rparr>)"
      using st False ms by (simp add: md_def)
    then show ?thesis unfolding d_def [symmetric] mf_def [symmetric] by blast
  qed
qed

lemma PSF_process_earthquake_metadata:
  assumes t: "parse_datetime e (row_date_time r) = Some t"
    and fresh: "writable_fresh e w (event_dir_of e (psf_data_dir self) 60 r t)"
    and names: "list_all (\<lambda>s. name s \<noteq> None) (psf_global_stations self)"
  shows "\<exists>stations w'.
      PSF_get_nearest_stations self (row_latitude r) (row_longitude r) 4000 3 = Inr stations
      \<and> (if stations = []
         then PSF_process_earthquake e self r w = (None, w')
              \<and> fs w' (metadata_file (event_dir_of e (psf_data_dir self) 60 r t)) = None
         else \<exists>station_results successful.
              PSF_process_earthquake e self r w
                = (Some (event_dir_of e (psf_data_dir self) 60 r t), w')
              \<and> map si_station station_results = stations
              \<and> fs w' (metadata_file (event_dir_of e (psf_data_dir self) 60 r t))
                  = Some (JsonFile
                       \<lparr> md_event_info = r, md_datetime = t, md_stations = station_results,
                         md_data_periods = PSF_data_periods t,
                         md_successful_retrievals = Some successful,
                         md_status = ''completed'' \<rparr>))"
proof -
  define d where "d = event_dir_of e (psf_data_dir self) 60 r t"
  define bd where "bd = path_join d ''before_event''"
  define ad where "ad = path_join d ''after_event''"
  define mf where "mf = metadata_file d"
  define w1 where "w1 = w\<lparr>fs := (fs w)(d \<mapsto> Dir)\<rparr>"
  define w2 where "w2 = w1\<lparr>fs := (fs w1)(bd \<mapsto> Dir)\<rparr>"
  define w3 where "w3 = w2\<lparr>fs := (fs w2)(ad \<mapsto> Dir)\<rparr>"
  from fresh have ne: "\<not> path_exists w d" and fd: "fs w d = None" and fbd: "fs w bd = None"
    and fad: "fs w ad = None" and fmf: "fs w mf = None"
    and cd: "can_write e d" and cbd: "can_write e bd" and cad: "can_write e ad"
    and cmf: "can_write e mf"
    by (simp_all add: writable_fresh_def d_def bd_def ad_def mf_def path_exists_def)
  have neq: "mf \<noteq> d" "bd \<noteq> d" "ad \<noteq> d" "mf \<noteq> bd" "mf \<noteq> ad" "ad \<noteq> bd"
    unfolding mf_def bd_def ad_def by (rule event_paths_distinct)+
  obtain stations where
    st: "PSF_get_nearest_stations self (row_latitude r) (row_longitude r) 4000 3 = Inr stations"
    by (simp add: PSF_get_nearest_stations_eq)
  have m1: "makedirs e d w = Inr w1" using cd fd by (simp add: makedirs_def w1_def)
  have "fs w1 bd = None" using fbd neq by (simp add: w1_def)
  then have m2: "makedirs e bd w1 = Inr w2" using cbd by (simp add: makedirs_def w2_def)
  have "fs w2 ad = None" using fad neq by (simp add: w2_def w1_def)
  then have m3: "makedirs e ad w2 = Inr w3" using cad by (simp add: makedirs_def w3_def)
  have f3: "fs w3 mf = None" using fmf neq by (simp add: w3_def w2_def w1_def)
  show ?thesis
  proof (cases "stations = []")
    case True
    have "PSF_process_earthquake e self r w = (None, w3)"
      using t ne m1 m2 m3 st True
      by (simp add: PSF_process_earthquake_def PSF_process_earthquake_body_def Let_def
          d_def [symmetric] bd_def [symmetric] ad_def [symmetric])
    with f3 st True have
      "PSF_get_nearest_stations self (row_latitude r) (row_longitude r) 4000 3 = Inr stations
      \<and> (if stations = []
         then PSF_process_earthquake e self r w = (None, w3) \<and> fs w3 mf = None
         else \<exists>station_results successful.
              PSF_process_earthquake e self r w = (Some d, w3)
              \<and> map si_station station_results = stations
              \<and> fs w3 mf
                  = Some (JsonFile
                       \<lparr> md_event_info = r, md_datetime = t, md_stations = station_results,
                         md_data_periods = PSF_data_periods t,
                         md_successful_retrievals = Some successful,
                         md_status = ''completed'' \<rparr>))"
      by simp
    then show ?thesis unfolding d_def [symmetric] mf_def [symmetric] by blast
  next
    case False
    have "list_all (\<lambda>s. name s \<noteq> None) stations"
      using names st by (rule PSF_get_nearest_stations_names)
    from PSF_process_stations_result [OF this, of e self bd ad "PSF_data_periods t" "[]" 0 w3 mf]
    obtain sd k w4 where ps: "PSF_process_stations e self bd ad (PSF_data_periods t)
        stations [] 0 w3 = (Inr (sd, k), w4)"
      and nn: "no_new_dirs w3 w4 mf" and ms: "map si_station sd = stations"
      by auto
    from nn f3 have f4: "fs w4 mf \<noteq> Some Dir" by (rule no_new_dirs_None)
    define md where "md = JsonFile
               \<lparr> md_event_info = r, md_datetime = t, md_stations = sd,
                 md_data_periods = PSF_data_periods t, md_successful_retrievals = Some k,
                 md_status = ''completed'' \<rparr>"
    have wr: "write_file e mf md w4 = Inr (w4\<lparr>fs := (fs w4)(mf \<mapsto> md)\<rparr>)"
      using cmf f4 by (simp add: write_file_def)
    have pe: "PSF_process_earthquake e self r w = (Some d, w4\<lparr>fs := (fs w4)(mf \<mapsto> md)\<rparr>)"
      using t ne m1 m2 m3 st False ps wr
      by (simp add: PSF_process_earthquake_def PSF_process_earthquake_body_def Let_def
          d_def [symmetric] mf_def [symmetric] md_def [symmetric]
          bd_def [symmetric] ad_def [symmetric])
    have "fs (w4\<lparr>fs := (fs w4)(mf \<mapsto> md)\<rparr>) mf = Some md" by simp
    with pe ms have "\<exists>station_results successful.
              PSF_process_earthquake e self r w = (Some d, w4\<lparr>fs := (fs w4)(mf \<mapsto> md)\<rparr>)
              \<and> map si_station station_results = stations
              \<and> fs (w4\<lparr>fs := (fs w4)(mf \<mapsto> md)\<rparr>) mf
                  = Some (JsonFile
                       \<lparr> md_event_info = r, md_datetime = t, md_stations = station_results,
                         md_data_periods = PSF_data_periods t,
                         md_successful_retrievals = Some successful,
                         md_status = ''completed'' \<rparr>)"
      unfolding md_def by blast
    with st False have
      "PSF_get_nearest_stations self (row_latitude r) (row_longitude r) 4000 3 = Inr stations
      \<and> (if stations = []
         then PSF_process_earthquake e self r w = (None, w4\<lparr>fs := (fs w4)(mf \<mapsto> md)\<rparr>)
              \<and> fs (w4\<lparr>fs := (fs w4)(mf \<mapsto> md)\<rparr>) mf = None
         else \<exists>station_results successful.
              PSF_process_earthquake e self r w = (Some d, w4\<lparr>fs := (fs w4)(mf \<mapsto> md)\<rparr>)
              \<and> map si_station station_results = stations
              \<and> fs (w4\<lparr>fs := (fs w4)(mf \<mapsto> md)\<rparr>) mf
                  = Some (JsonFile
                       \<lparr> md_event_info = r, md_datetime = t, md_stations = station_results,
                         md_data_periods = PSF_data_periods t,
                         md_successful_retrievals = Some successful,
                         md_status = ''completed'' \<rparr>))"
      by (simp only: if_False simp_thms)
    then show ?thesis unfolding d_def [symmetric] mf_def [symmetric] by blast
  qed
qed

lemma ex_row_position:
  "row_latitude ex_row = 0" "row_longitude ex_row = 0"
  "row_latitude ex_row_angola = - 15" "row_longitude ex_row_angola = 15"
  "row_date_time ex_row = ''06-02-2023 01:17''"
  "row_date_time ex_row_angola = ''06-02-2023 01:17''"
  by (simp_all add: ex_row_def ex_row_angola_def)

lemma ex_env_parses: "parse_datetime ex_env ''06-02-2023 01:17'' = Some 1675646220"
  by (simp add: parse_datetime_def ex_env_def)

lemma ex_world_writable_fresh: "writable_fresh ex_env ex_world d"
  by (simp add: writable_fresh_def ex_world_def path_exists_def ex_env_def)

text \<open>
  Claim C2, counterexample. The event at 15 degrees south and 15 degrees east has no
  station of the built-in list of \<^verbatim>\<open>ProductionSeismicFetcher\<close> within 4000 km. Its
  directory does not exist; \<^verbatim>\<open>process_earthquake\<close> creates it, returns \<^verbatim>\<open>None\<close>
  and leaves no metadata file.
\<close>

theorem no_stations_no_metadata:
  "fs ex_world (event_dir_of ex_env (psf_data_dir ex_psf_w) 60 ex_row_angola 1675646220) = None
   \<and> parse_datetime ex_env (row_date_time ex_row_angola) = Some 1675646220
   \<and> PSF_get_nearest_stations ex_psf_w (row_latitude ex_row_angola)
        (row_longitude ex_row_angola) 4000 3 = Inr []
   \<and> fst (PSF_process_earthquake ex_env ex_psf_w ex_row_angola ex_world) = None
   \<and> fs (snd (PSF_process_earthquake ex_env ex_psf_w ex_row_angola ex_world))
        (event_dir_of ex_env (psf_data_dir ex_psf_w) 60 ex_row_angola 1675646220) = Some Dir
   \<and> fs (snd (PSF_process_earthquake ex_env ex_psf_w ex_row_angola ex_world))
        (metadata_file (event_dir_of ex_env (psf_data_dir ex_psf_w) 60 ex_row_angola 1675646220))
        = None"
proof -
  define d where "d = event_dir_of ex_env (psf_data_dir ex_psf_w) 60 ex_row_angola 1675646220"
  have neq: "metadata_file d \<noteq> d" "path_join d ''before_event'' \<noteq> d"
    "path_join d ''after_event'' \<noteq> d"
    "metadata_file d \<noteq> path_join d ''before_event''"
    "metadata_file d \<noteq> path_join d ''after_event''"
    by (rule event_paths_distinct)+
  have p: "parse_datetime ex_env (row_date_time ex_row_angola) = Some 1675646220"
    by (simp only: ex_row_position ex_env_parses)
  have n: "PSF_get_nearest_stations ex_psf_w (row_latitude ex_row_angola)
        (row_longitude ex_row_angola) 4000 3 = Inr []"
    by (simp only: ex_row_position ex_psf_w_def PSF_init_angola)
  have c: "can_write ex_env q" for q by (simp add: ex_env_def)
  have "PSF_process_earthquake ex_env ex_psf_w ex_row_angola ex_world
      = (None, \<lparr> fs = [d \<mapsto> Dir, path_join d ''before_event'' \<mapsto> Dir,
                       path_join d ''after_event'' \<mapsto> Dir], log = [] \<rparr>)"
    using neq
    by (simp add: PSF_process_earthquake_def PSF_process_earthquake_body_def p n Let_def
        d_def [symmetric] path_exists_def makedirs_def c ex_world_def)
  then show ?thesis
    using neq p n unfolding d_def [symmetric] by (simp add: ex_world_def)
qed

text \<open>
  Claim C2, amended. Let the date of the row parse, and let the event directory be new
  and writable: nothing exists at its place, at the places of its two subdirectories
  or at the place of its metadata file, and the four can be created or written.

  Then \<^verbatim>\<open>SeismicDataFetcher.process_earthquake\<close> returns the event directory, and
  the metadata file holds the row, the event time, the two periods and one entry for
  each of the first three stations of the resolver, whatever the fetches of the
  waveforms gave; its status is \<^verbatim>\<open>no_stations_found\<close> when the resolver returned no
  station and \<^verbatim>\<open>completed\<close> otherwise.

  \<^verbatim>\<open>ProductionSeismicFetcher.process_earthquake\<close>, every station of whose list has
  a name, writes the metadata file with the status \<^verbatim>\<open>completed\<close>, one entry for each
  station of the resolver and the number of files written, and returns the event
  directory, when the resolver returned a station; when the resolver returned none it
  returns \<^verbatim>\<open>None\<close> and there is no metadata file.
\<close>

theorem process_earthquake_metadata:
  "(parse_datetime e (row_date_time r) = Some t
      \<and> writable_fresh e w (event_dir_of e (sdf_data_dir self) 100 r t)
    \<longrightarrow> (\<exists>stations station_data w'.
          SDF_get_nearest_stations self (row_latitude r) (row_longitude r) 500 5 = Inr stations
          \<and> SDF_process_earthquake e self r w
              = (Some (event_dir_of e (sdf_data_dir self) 100 r t), w')
          \<and> map si_station station_data = py_slice_to 3 stations
          \<and> fs w' (metadata_file (event_dir_of e (sdf_data_dir self) 100 r t))
              = Some (JsonFile
                   \<lparr> md_event_info = r, md_datetime = t, md_stations = station_data,
                     md_data_periods = SDF_data_periods t, md_successful_retrievals = None,
                     md_status = (if stations = [] then ''no_stations_found''
                                  else ''completed'') \<rparr>)))
   \<and> (parse_datetime e' (row_date_time r') = Some t'
      \<and> writable_fresh e' w0 (event_dir_of e' (psf_data_dir pself) 60 r' t')
      \<and> list_all (\<lambda>s. name s \<noteq> None) (psf_global_stations pself)
    \<longrightarrow> (\<exists>stations w'.
          PSF_get_nearest_stations pself (row_latitude r') (row_longitude r') 4000 3
            = Inr stations
          \<and> (if stations = []
             then PSF_process_earthquake e' pself r' w0 = (None, w')
                  \<and> fs w' (metadata_file (event_dir_of e' (psf_data_dir pself) 60 r' t')) = None
             else \<exists>station_results successful.
                  PSF_process_earthquake e' pself r' w0
                    = (Some (event_dir_of e' (psf_data_dir pself) 60 r' t'), w')
                  \<and> map si_station station_results = stations
                  \<and> fs w' (metadata_file (event_dir_of e' (psf_data_dir pself) 60 r' t'))
                      = Some (JsonFile
                           \<lparr> md_event_info = r', md_datetime = t',
                             md_stations = station_results,
                             md_data_periods = PSF_data_periods t',
                             md_successful_retrievals = Some successful,
                             md_status = ''completed'' \<rparr>))))"
proof (intro conjI impI)
  assume "parse_datetime e (row_date_time r) = Some t
      \<and> writable_fresh e w (event_dir_of e (sdf_data_dir self) 100 r t)"
  then have "parse_datetime e (row_date_time r) = Some t"
    and "writable_fresh e w (event_dir_of e (sdf_data_dir self) 100 r t)" by simp_all
  then show "\<exists>stations station_data w'.
          SDF_get_nearest_stations self (row_latitude r) (row_longitude r) 500 5 = Inr stations
          \<and> SDF_process_earthquake e self r w
              = (Some (event_dir_of e (sdf_data_dir self) 100 r t), w')
          \<and> map si_station station_data = py_slice_to 3 stations
          \<and> fs w' (metadata_file (event_dir_of e (sdf_data_dir self) 100 r t))
              = Some (JsonFile
                   \<lparr> md_event_info = r, md_datetime = t, md_stations = station_data,
                     md_data_periods = SDF_data_periods t, md_successful_retrievals = None,
                     md_status = (if stations = [] then ''no_stations_found''
                                  else ''completed'') \<rparr>)"
    by (rule SDF_process_earthquake_metadata)
next
  assume "parse_datetime e' (row_date_time r') = Some t'
      \<and> writable_fresh e' w0 (event_dir_of e' (psf_data_dir pself) 60 r' t')
      \<and> list_all (\<lambda>s. name s \<noteq> None) (psf_global_stations pself)"
  then have "parse_datetime e' (row_date_time r') = Some t'"
    and "writable_fresh e' w0 (event_dir_of e' (psf_data_dir pself) 60 r' t')"
    and "list_all (\<lambda>s. name s \<noteq> None) (psf_global_stations pself)" by simp_all
  then show "\<exists>stations w'.
          PSF_get_nearest_stations pself (row_latitude r') (row_longitude r') 4000 3
            = Inr stations
          \<and> (if stations = []
             then PSF_process_earthquake e' pself r' w0 = (None, w')
                  \<and> fs w' (metadata_file (event_dir_of e' (psf_data_dir pself) 60 r' t')) = None
             else \<exists>station_results successful.
                  PSF_process_earthquake e' pself r' w0
                    = (Some (event_dir_of e' (psf_data_dir pself) 60 r' t'), w')
                  \<and> map si_station station_results = stations
                  \<and> fs w' (metadata_file (event_dir_of e' (psf_data_dir pself) 60 r' t'))
                      = Some (JsonFile
                           \<lparr> md_event_info = r', md_datetime = t',
                             md_stations = station_results,
                             md_data_periods = PSF_data_periods t',
                             md_successful_retrievals = Some successful,
                             md_status = ''completed'' \<rparr>))"
    by (rule PSF_process_earthquake_metadata)
qed

theorem process_earthquake_metadata_witness:
  "(\<exists>station_data w'.
      SDF_process_earthquake ex_env ex_sdf ex_row ex_world
        = (Some (event_dir_of ex_env (sdf_data_dir ex_sdf) 100 ex_row 1675646220), w')
      \<and> map si_station station_data = [ex_anmo_a, ex_hrv_b]
      \<and> fs w' (metadata_file (event_dir_of ex_env (sdf_data_dir ex_sdf) 100 ex_row 1675646220))
          = Some (JsonFile
               \<lparr> md_event_info = ex_row, md_datetime = 1675646220, md_stations = station_data,
                 md_data_periods = SDF_data_periods 1675646220,
                 md_successful_retrievals = None, md_status = ''completed'' \<rparr>))
   \<and> (\<exists>w'.
      SDF_process_earthquake ex_env ex_sdf_silent ex_row_angola ex_world
        = (Some (event_dir_of ex_env (sdf_data_dir ex_sdf_silent) 100 ex_row_angola 1675646220), w')
      \<and> fs w' (metadata_file
                 (event_dir_of ex_env (sdf_data_dir ex_sdf_silent) 100 ex_row_angola 1675646220))
          = Some (JsonFile
               \<lparr> md_event_info = ex_row_angola, md_datetime = 1675646220, md_stations = [],
                 md_data_periods = SDF_data_periods 1675646220,
                 md_successful_retrievals = None, md_status = ''no_stations_found'' \<rparr>))
   \<and> (\<exists>station_results successful w'.
      PSF_process_earthquake ex_env ex_psf_two ex_row ex_world
        = (Some (event_dir_of ex_env (psf_data_dir ex_psf_two) 60 ex_row 1675646220), w')
      \<and> map si_station station_results = [ex_sumg]
      \<and> fs w' (metadata_file (event_dir_of ex_env (psf_data_dir ex_psf_two) 60 ex_row 1675646220))
          = Some (JsonFile
               \<lparr> md_event_info = ex_row, md_datetime = 1675646220,
                 md_stations = station_results,
                 md_data_periods = PSF_data_periods 1675646220,
                 md_successful_retrievals = Some successful, md_status = ''completed'' \<rparr>))"
proof -
  have p: "parse_datetime ex_env (row_date_time ex_row) = Some 1675646220"
    "parse_datetime ex_env (row_date_time ex_row_angola) = Some 1675646220"
    by (simp_all only: ex_row_position ex_env_parses)
  have names: "list_all (\<lambda>s. name s \<noteq> None) (psf_global_stations ex_psf_two)"
    by (simp add: ex_psf_two_def)
  note T1 = process_earthquake_metadata
    [where e = ex_env and r = ex_row and t = 1675646220 and w = ex_world and self = ex_sdf
       and e' = ex_env and r' = ex_row and t' = 1675646220 and ?w0.0 = ex_world
       and pself = ex_psf_two]
  note T2 = process_earthquake_metadata
    [where e = ex_env and r = ex_row_angola and t = 1675646220 and w = ex_world
       and self = ex_sdf_silent
       and e' = ex_env and r' = ex_row and t' = 1675646220 and ?w0.0 = ex_world
       and pself = ex_psf_two]
  from T1 [THEN conjunct1, THEN mp, OF conjI [OF p(1) ex_world_writable_fresh]]
  obtain stations sd w1 where
    a1: "SDF_get_nearest_stations ex_sdf (row_latitude ex_row) (row_longitude ex_row) 500 5
           = Inr stations"
    and a2: "SDF_process_earthquake ex_env ex_sdf ex_row ex_world
        = (Some (event_dir_of ex_env (sdf_data_dir ex_sdf) 100 ex_row 1675646220), w1)"
    and a3: "map si_station sd = py_slice_to 3 stations"
    and a4: "fs w1 (metadata_file (event_dir_of ex_env (sdf_data_dir ex_sdf) 100 ex_row 1675646220))
          = Some (JsonFile
               \<lparr> md_event_info = ex_row, md_datetime = 1675646220, md_stations = sd,
                 md_data_periods = SDF_data_periods 1675646220,
                 md_successful_retrievals = None,
                 md_status = (if stations = [] then ''no_stations_found''
                              else ''completed'') \<rparr>)"
    by blast
  from a1 have s1: "stations = [ex_anmo_a, ex_hrv_b]"
    by (simp add: ex_row_position ex_sdf_result)
  have A: "\<exists>station_data w'.
      SDF_process_earthquake ex_env ex_sdf ex_row ex_world
        = (Some (event_dir_of ex_env (sdf_data_dir ex_sdf) 100 ex_row 1675646220), w')
      \<and> map si_station station_data = [ex_anmo_a, ex_hrv_b]
      \<and> fs w' (metadata_file (event_dir_of ex_env (sdf_data_dir ex_sdf) 100 ex_row 1675646220))
          = Some (JsonFile
               \<lparr> md_event_info = ex_row, md_datetime = 1675646220, md_stations = station_data,
                 md_data_periods = SDF_data_periods 1675646220,
                 md_successful_retrievals = None, md_status = ''completed'' \<rparr>)"
    using a2 a3 a4 unfolding s1 by (auto simp: py_slice_to_def)
  from T2 [THEN conjunct1, THEN mp, OF conjI [OF p(2) ex_world_writable_fresh]]
  obtain stations2 sd2 w2 where
    b1: "SDF_get_nearest_stations ex_sdf_silent (row_latitude ex_row_angola)
           (row_longitude ex_row_angola) 500 5 = Inr stations2"
    and b2: "SDF_process_earthquake ex_env ex_sdf_silent ex_row_angola ex_world
        = (Some (event_dir_of ex_env (sdf_data_dir ex_sdf_silent) 100 ex_row_angola 1675646220), w2)"
    and b3: "map si_station sd2 = py_slice_to 3 stations2"
    and b4: "fs w2 (metadata_file
                 (event_dir_of ex_env (sdf_data_dir ex_sdf_silent) 100 ex_row_angola 1675646220))
          = Some (JsonFile
               \<lparr> md_event_info = ex_row_angola, md_datetime = 1675646220, md_stations = sd2,
                 md_data_periods = SDF_data_periods 1675646220,
                 md_successful_retrievals = None,
                 md_status = (if stations2 = [] then ''no_stations_found''
                              else ''completed'') \<rparr>)"
    by blast
  from b1 have s2: "stations2 = []"
    by (simp add: ex_row_position ex_sdf_silent_angola)
  from b3 have "sd2 = []" unfolding s2 by (simp add: py_slice_to_def)
  with b2 b4 have B: "\<exists>w'.
      SDF_process_earthquake ex_env ex_sdf_silent ex_row_angola ex_world
        = (Some (event_dir_of ex_env (sdf_data_dir ex_sdf_silent) 100 ex_row_angola 1675646220), w')
      \<and> fs w' (metadata_file
                 (event_dir_of ex_env (sdf_data_dir ex_sdf_silent) 100 ex_row_angola 1675646220))
          = Some (JsonFile
               \<lparr> md_event_info = ex_row_angola, md_datetime = 1675646220, md_stations = [],
                 md_data_periods = SDF_data_periods 1675646220,
                 md_successful_retrievals = None, md_status = ''no_stations_found'' \<rparr>)"
    unfolding s2 by auto
  from T1 [THEN conjunct2, THEN mp, OF conjI [OF p(1) conjI [OF ex_world_writable_fresh names]]]
  obtain stations3 w3 where
    c1: "PSF_get_nearest_stations ex_psf_two (row_latitude ex_row) (row_longitude ex_row) 4000 3
           = Inr stations3"
    and c2: "if stations3 = []
         then PSF_process_earthquake ex_env ex_psf_two ex_row ex_world = (None, w3)
              \<and> fs w3 (metadata_file
                         (event_dir_of ex_env (psf_data_dir ex_psf_two) 60 ex_row 1675646220)) = None
         else \<exists>station_results successful.
              PSF_process_earthquake ex_env ex_psf_two ex_row ex_world
                = (Some (event_dir_of ex_env (psf_data_dir ex_psf_two) 60 ex_row 1675646220), w3)
              \<and> map si_station station_results = stations3
              \<and> fs w3 (metadata_file
                         (event_dir_of ex_env (psf_data_dir ex_psf_two) 60 ex_row 1675646220))
                  = Some (JsonFile
                       \<lparr> md_event_info = ex_row, md_datetime = 1675646220,
                         md_stations = station_results,
                         md_data_periods = PSF_data_periods 1675646220,
                         md_successful_retrievals = Some successful,
                         md_status = ''completed'' \<rparr>)"
    by blast
  from c1 have s3: "stations3 = [ex_sumg]"
    by (simp add: ex_row_position ex_psf_two_result)
  from c2 have C: "\<exists>station_results successful w'.
      PSF_process_earthquake ex_env ex_psf_two ex_row ex_world
        = (Some (event_dir_of ex_env (psf_data_dir ex_psf_two) 60 ex_row 1675646220), w')
      \<and> map si_station station_results = [ex_sumg]
      \<and> fs w' (metadata_file (event_dir_of ex_env (psf_data_dir ex_psf_two) 60 ex_row 1675646220))
          = Some (JsonFile
               \<lparr> md_event_info = ex_row, md_datetime = 1675646220,
                 md_stations = station_results,
                 md_data_periods = PSF_data_periods 1675646220,
                 md_successful_retrievals = Some successful, md_status = ''completed'' \<rparr>)"
    unfolding s3 by auto
  from A B C show ?thesis by (intro conjI)
qed

end
